theory Spec2Isabelle
  imports Complex_Main
begin

section \<open>Preliminaries\<close>

text \<open>
  The services are Python functions over DynamoDB tables. A table is a partial map from
  its key to an item; an item is a record whose attributes are optional, because DynamoDB
  items carry only the attributes that were written. Exceptions are values of one
  datatype and a function that may raise returns \<open>exn + 'a\<close>. Wall-clock time
  (\<^verbatim>\<open>time.time()\<close>) is a real number handed to the function that reads it. Store
  operations themselves are assumed to be available: a \<^verbatim>\<open>ClientError\<close> other than a
  failed condition is not modelled, nor are the limits of the store's encoding (an empty
  key, a number of more than 38 digits), on which the client library raises before any
  request is sent. Numbers are exact: the rounding of a floating-point product is not
  modelled.
\<close>

datatype exn =
    KeyError string
  | ValueError string
  | TypeError string
  | JSONDecodeError
  | ValidationError
  | ConnectionError string
  | ConditionalCheckFailedException
  | IdempotencyError "string option"
  | IdempotencyAlreadyInProgressError string
  | CircuitBreakerOpenError string real
  | InsufficientStockError string int
  | PaymentDeclinedError string
  | OptimisticLockError int
  | RuntimeError string

text \<open>Python's \<^verbatim>\<open>int(x)\<close> on a float truncates towards zero.\<close>

definition py_int :: "real \<Rightarrow> int" where
  "py_int x = (if 0 \<le> x then \<lfloor>x\<rfloor> else \<lceil>x\<rceil>)"

text \<open>
  DynamoDB \<^verbatim>\<open>update_item\<close> without a condition edits the attributes named in the
  update expression and creates the item when no item has the key; the created item has
  the key and the written attributes only. \<open>blank\<close> is the item with no attribute.
\<close>

definition update_item :: "'i \<Rightarrow> ('k \<rightharpoonup> 'i) \<Rightarrow> 'k \<Rightarrow> ('i \<Rightarrow> 'i) \<Rightarrow> ('k \<rightharpoonup> 'i)" where
  "update_item blank tbl k upd =
     tbl(k \<mapsto> upd (case tbl k of None \<Rightarrow> blank | Some it \<Rightarrow> it))"

section \<open>Circuit breaker: services/shared/circuit\_breaker.py\<close>

datatype CircuitState = CLOSED | OPEN | HALF_OPEN

record breaker_item =
  circuit_state :: "CircuitState option"
  failure_count :: "int option"
  success_count :: "int option"
  resets_at :: "int option"

type_synonym cb_table = "string \<rightharpoonup> breaker_item"

record CircuitBreaker =
  name :: string
  failure_threshold :: int
  success_threshold :: int
  timeout_seconds :: int

definition no_attributes :: breaker_item where
  "no_attributes =
     \<lparr>circuit_state = None, failure_count = None, success_count = None, resets_at = None\<rparr>"

text \<open>\<^verbatim>\<open>reset\<close>: \<^verbatim>\<open>put_item\<close> replaces the whole item.\<close>

definition reset :: "CircuitBreaker \<Rightarrow> cb_table \<Rightarrow> cb_table" where
  "reset cb tbl =
     tbl(name cb \<mapsto> \<lparr>circuit_state = Some CLOSED, failure_count = Some 0,
                       success_count = Some 0, resets_at = None\<rparr>)"

text \<open>\<^verbatim>\<open>_get_state\<close>: the stored item, or the default dictionary when there is none.\<close>

definition get_state :: "CircuitBreaker \<Rightarrow> cb_table \<Rightarrow> breaker_item" where
  "get_state cb tbl =
     (case tbl (name cb) of
        Some it \<Rightarrow> it
      | None \<Rightarrow> \<lparr>circuit_state = Some CLOSED, failure_count = Some 0,
                  success_count = Some 0, resets_at = None\<rparr>)"

text \<open>\<^verbatim>\<open>prev_state.get("circuit_state", CircuitState.CLOSED)\<close> and the two counters read
  with \<^verbatim>\<open>int(prev_state.get(..., 0))\<close>.\<close>

definition get_circuit_state :: "breaker_item \<Rightarrow> CircuitState" where
  "get_circuit_state st = (case circuit_state st of None \<Rightarrow> CLOSED | Some s \<Rightarrow> s)"

definition get_failure_count :: "breaker_item \<Rightarrow> int" where
  "get_failure_count st = (case failure_count st of None \<Rightarrow> 0 | Some n \<Rightarrow> n)"

definition get_success_count :: "breaker_item \<Rightarrow> int" where
  "get_success_count st = (case success_count st of None \<Rightarrow> 0 | Some n \<Rightarrow> n)"

definition record_success :: "CircuitBreaker \<Rightarrow> breaker_item \<Rightarrow> cb_table \<Rightarrow> cb_table" where
  "record_success cb prev_state tbl =
     (let cs = get_circuit_state prev_state in
      if cs = HALF_OPEN then
        (let new_successes = get_success_count prev_state + 1 in
         if new_successes \<ge> success_threshold cb then
           update_item no_attributes tbl (name cb)
             (\<lambda>it. it\<lparr>circuit_state := Some CLOSED, failure_count := Some 0,
                       success_count := Some 0\<rparr>)
         else
           update_item no_attributes tbl (name cb)
             (\<lambda>it. it\<lparr>success_count := Some new_successes\<rparr>))
      else if cs = CLOSED then
        update_item no_attributes tbl (name cb) (\<lambda>it. it\<lparr>failure_count := Some 0\<rparr>)
      else tbl)"

text \<open>\<open>now\<close> is the value of \<^verbatim>\<open>time.time()\<close> read when the circuit is opened.\<close>

definition record_failure ::
  "CircuitBreaker \<Rightarrow> real \<Rightarrow> breaker_item \<Rightarrow> cb_table \<Rightarrow> cb_table" where
  "record_failure cb now prev_state tbl =
     (let new_failures = get_failure_count prev_state + 1;
          cs = get_circuit_state prev_state in
      if new_failures \<ge> failure_threshold cb \<and> cs \<noteq> OPEN then
        (let resets = now + real_of_int (timeout_seconds cb) in
         update_item no_attributes tbl (name cb)
           (\<lambda>it. it\<lparr>circuit_state := Some OPEN, failure_count := Some new_failures,
                     resets_at := Some (py_int resets), success_count := Some 0\<rparr>))
      else
        update_item no_attributes tbl (name cb)
          (\<lambda>it. it\<lparr>failure_count := Some new_failures\<rparr>))"

definition transition_to_half_open :: "CircuitBreaker \<Rightarrow> cb_table \<Rightarrow> cb_table" where
  "transition_to_half_open cb tbl =
     update_item no_attributes tbl (name cb)
       (\<lambda>it. it\<lparr>circuit_state := Some HALF_OPEN, success_count := Some 0\<rparr>)"

text \<open>
  \<^verbatim>\<open>call\<close>. The protected callable is a function on a world \<open>'w\<close> that the breaker does
  not see; it returns its result or the exception it raised, and the new world. \<open>now\<close>
  is the clock at the OPEN check, \<open>now_f\<close> the clock when a failure is recorded.
  \<^verbatim>\<open>state["circuit_state"]\<close> is a subscript: it raises \<^verbatim>\<open>KeyError\<close> on an item that
  lacks the attribute. \<^verbatim>\<open>float(state.get("resets_at", 0))\<close> reads a missing time as 0.
\<close>

definition call ::
  "CircuitBreaker \<Rightarrow> real \<Rightarrow> real \<Rightarrow> ('w \<Rightarrow> (exn + 'a) \<times> 'w) \<Rightarrow> 'w \<Rightarrow> cb_table
     \<Rightarrow> (exn + 'a) \<times> 'w \<times> cb_table" where
  "call cb now now_f fn w tbl =
     (let state = get_state cb tbl in
      case circuit_state state of
        None \<Rightarrow> (Inl (KeyError ''circuit_state''), w, tbl)
      | Some cs \<Rightarrow>
          (let resets = real_of_int (case resets_at state of None \<Rightarrow> 0 | Some r \<Rightarrow> r) in
           if cs = OPEN \<and> now < resets then
             (Inl (CircuitBreakerOpenError (name cb) resets), w, tbl)
           else
             (let tbl1 = (if cs = OPEN then transition_to_half_open cb tbl else tbl);
                  state1 = (if cs = OPEN then get_state cb tbl1 else state)
              in case fn w of
                   (Inr result, w') \<Rightarrow> (Inr result, w', record_success cb state1 tbl1)
                 | (Inl exc, w') \<Rightarrow> (Inl exc, w', record_failure cb now_f state1 tbl1))))"

section \<open>Idempotency: services/shared/idempotency.py\<close>

text \<open>
  An idempotency record. \<open>'s\<close> is the type of a serialised result (the JSON text that
  \<^verbatim>\<open>json.dumps\<close> produces); \<^verbatim>\<open>json.dumps\<close> and \<^verbatim>\<open>json.loads\<close> are parameters of the
  wrapper, \<open>None\<close> standing for the \<^verbatim>\<open>TypeError\<close> of a value that cannot be
  serialised and for the decode error of a text that cannot be read.
\<close>

record 's idem_item =
  status :: "string option"
  result :: "'s option"
  created_at :: "int option"
  ttl :: "int option"

type_synonym 's idem_table = "string \<rightharpoonup> 's idem_item"

definition IDEMPOTENCY_TTL_SECONDS :: int where
  "IDEMPOTENCY_TTL_SECONDS = 86400"

definition no_record_attributes :: "'s idem_item" where
  "no_record_attributes = \<lparr>status = None, result = None, created_at = None, ttl = None\<rparr>"

text \<open>\<^verbatim>\<open>put_item\<close> under \<^verbatim>\<open>attribute_not_exists(key)\<close>: written only when no item has
  the key. \<^verbatim>\<open>delete_item\<close> removes the item.\<close>

definition put_item_if_not_exists :: "('k \<rightharpoonup> 'i) \<Rightarrow> 'k \<Rightarrow> 'i \<Rightarrow> exn + ('k \<rightharpoonup> 'i)" where
  "put_item_if_not_exists tbl k it =
     (case tbl k of
        None \<Rightarrow> Inr (tbl(k \<mapsto> it))
      | Some _ \<Rightarrow> Inl ConditionalCheckFailedException)"

definition delete_item :: "('k \<rightharpoonup> 'i) \<Rightarrow> 'k \<Rightarrow> ('k \<rightharpoonup> 'i)" where
  "delete_item tbl k = tbl(k := None)"

text \<open>
  The function that \<^verbatim>\<open>@idempotent(key_fn)\<close> puts in place of \<open>fn\<close>: \<open>key\<close> is the value of
  \<^verbatim>\<open>key_fn\<close> on the arguments, \<open>now\<close> the clock, \<open>fn\<close> the wrapped function on its own
  world \<open>'w\<close>. The argument \<^verbatim>\<open>json.dumps(result)\<close> of the final \<^verbatim>\<open>update_item\<close> is evaluated
  outside the \<^verbatim>\<open>try\<close>, so a result that cannot be serialised leaves the claim in place.
\<close>

definition idempotent ::
  "('r \<Rightarrow> 's option) \<Rightarrow> ('s \<Rightarrow> 'r option) \<Rightarrow> real \<Rightarrow> string \<Rightarrow> ('w \<Rightarrow> (exn + 'r) \<times> 'w)
     \<Rightarrow> 'w \<Rightarrow> 's idem_table \<Rightarrow> (exn + 'r) \<times> 'w \<times> 's idem_table" where
  "idempotent json_dumps json_loads now key fn w tbl =
     (let expiry = py_int now + IDEMPOTENCY_TTL_SECONDS in
      case put_item_if_not_exists tbl key
             \<lparr>status = Some ''IN_FLIGHT'', result = None,
              created_at = Some (py_int now), ttl = Some expiry\<rparr> of
        Inl _ \<Rightarrow>
          (let existing = (case tbl key of None \<Rightarrow> no_record_attributes | Some it \<Rightarrow> it);
               st = status existing
           in if st = Some ''COMPLETE'' then
                (case result existing of
                   None \<Rightarrow> (Inl (KeyError ''result''), w, tbl)
                 | Some s \<Rightarrow>
                     (case json_loads s of
                        None \<Rightarrow> (Inl JSONDecodeError, w, tbl)
                      | Some r \<Rightarrow> (Inr r, w, tbl)))
              else if st = Some ''IN_FLIGHT'' then
                (Inl (IdempotencyAlreadyInProgressError key), w, tbl)
              else (Inl (IdempotencyError st), w, delete_item tbl key))
      | Inr tbl1 \<Rightarrow>
          (case fn w of
             (Inl exc, w') \<Rightarrow> (Inl exc, w', delete_item tbl1 key)
           | (Inr res, w') \<Rightarrow>
               (case json_dumps res of
                  None \<Rightarrow> (Inl (TypeError ''not JSON serializable''), w', tbl1)
                | Some s \<Rightarrow>
                    (Inr res, w',
                     update_item no_record_attributes tbl1 key
                       (\<lambda>it. it\<lparr>status := Some ''COMPLETE'', result := Some s\<rparr>)))))"

text \<open>
  The idempotency table is declared with \<^verbatim>\<open>time_to_live_attribute="ttl"\<close>
  (infrastructure/cloudflow/database\_stack.py): the store deletes the records whose
  \<^verbatim>\<open>ttl\<close> lies in the past. \<open>ttl_sweep now\<close> is the table after such a deletion at clock
  \<open>now\<close>; the wrapper itself never compares a \<^verbatim>\<open>ttl\<close> with the clock.
\<close>

definition ttl_sweep :: "real \<Rightarrow> 's idem_table \<Rightarrow> 's idem_table" where
  "ttl_sweep now tbl =
     (\<lambda>k. case tbl k of
            None \<Rightarrow> None
          | Some it \<Rightarrow>
              (case ttl it of
                 None \<Rightarrow> Some it
               | Some t \<Rightarrow> if real_of_int t < now then None else Some it))"

section \<open>Event schemas: services/shared/events.py\<close>

text \<open>
  \<^verbatim>\<open>OrderItem\<close> is a pydantic model: \<^verbatim>\<open>quantity: int = Field(gt=0)\<close> and
  \<^verbatim>\<open>unit_price_cents: int = Field(ge=0)\<close>. Constructing it from a dictionary
  (\<^verbatim>\<open>OrderItem(**i)\<close>) validates the fields and raises \<^verbatim>\<open>ValidationError\<close>. The record is
  used both for the dictionary and for the validated model; \<open>OrderItem_init\<close> is the
  constructor. A list comprehension over the constructor stops at the first invalid item.
\<close>

record OrderItem =
  product_id :: string
  quantity :: int
  unit_price_cents :: int

definition OrderItem_init :: "OrderItem \<Rightarrow> exn + OrderItem" where
  "OrderItem_init i =
     (if quantity i > 0 \<and> unit_price_cents i \<ge> 0 then Inr i else Inl ValidationError)"

fun OrderItem_list :: "OrderItem list \<Rightarrow> exn + OrderItem list" where
  "OrderItem_list [] = Inr []"
| "OrderItem_list (i # rest) =
     (case OrderItem_init i of
        Inl e \<Rightarrow> Inl e
      | Inr item \<Rightarrow>
          (case OrderItem_list rest of
             Inl e \<Rightarrow> Inl e
           | Inr items \<Rightarrow> Inr (item # items)))"

section \<open>Inventory service: services/inventory\_service/handler.py\<close>

text \<open>
  The items of the inventory table (key \<^verbatim>\<open>product_id\<close>, attributes \<^verbatim>\<open>quantity\<close>,
  \<^verbatim>\<open>updated_at\<close>, \<^verbatim>\<open>unit_price_cents\<close>, \<^verbatim>\<open>name\<close>) and of the reservations table (key
  \<^verbatim>\<open>reservation_id\<close>, attributes \<^verbatim>\<open>order_id\<close>, \<^verbatim>\<open>items\<close>, \<^verbatim>\<open>status\<close>, \<^verbatim>\<open>created_at\<close>). The
  prefixes keep the attribute names apart from the fields of the other records.
\<close>

record inventory_item =
  inv_quantity :: "int option"
  inv_updated_at :: "string option"
  inv_unit_price_cents :: "int option"
  inv_name :: "string option"

record reservation_item =
  rsv_order_id :: "string option"
  rsv_items :: "OrderItem list option"
  rsv_status :: "string option"
  rsv_created_at :: "string option"

type_synonym inv_table = "string \<rightharpoonup> inventory_item"

record inv_world =
  inventory :: inv_table
  reservations :: "string \<rightharpoonup> reservation_item"

definition no_inventory_attributes :: inventory_item where
  "no_inventory_attributes =
     \<lparr>inv_quantity = None, inv_updated_at = None, inv_unit_price_cents = None,
      inv_name = None\<rparr>"

definition no_reservation_attributes :: reservation_item where
  "no_reservation_attributes =
     \<lparr>rsv_order_id = None, rsv_items = None, rsv_status = None, rsv_created_at = None\<rparr>"

text \<open>
  The event a Lambda handler receives and the dictionary it returns. The environment of
  one invocation holds the JSON functions, the clock (\<^verbatim>\<open>time.time()\<close>), the ISO timestamp
  (\<^verbatim>\<open>datetime.now(timezone.utc).isoformat()\<close>), the identifier that
  \<^verbatim>\<open>str(uuid.uuid4())\<close> draws, and the two random draws of the payment provider mock
  (whether \<^verbatim>\<open>random.random() < 0.03\<close>, and the hexadecimal digits of the charge id).
\<close>

record event =
  action :: "string option"
  order_id :: "string option"
  reservation_id :: "string option"
  items :: "OrderItem list option"
  correlation_id :: "string option"
  customer_id :: "string option"
  total_cents :: "int option"
  payment_id :: "string option"

datatype jval = JBool bool | JStr string | JInt int

type_synonym response = "(string \<times> jval) list"

record 's env =
  json_dumps :: "response \<Rightarrow> 's option"
  json_loads :: "'s \<Rightarrow> response option"
  clock :: real
  utc_now :: string
  uuid4 :: string
  provider_timed_out :: bool
  provider_hex :: string

text \<open>Decimal rendering of an integer, as \<^verbatim>\<open>str\<close> and the f-strings print it.\<close>

fun str_nat :: "nat \<Rightarrow> string" where
  "str_nat n =
     (if n < 10 then [''0123456789'' ! n]
      else str_nat (n div 10) @ [''0123456789'' ! (n mod 10)])"

declare str_nat.simps [simp del]

definition str_int :: "int \<Rightarrow> string" where
  "str_int i = (if i < 0 then CHR ''-'' # str_nat (nat (- i)) else str_nat (nat i))"

text \<open>\<^verbatim>\<open>str(e)\<close> of the \<^verbatim>\<open>InsufficientStockError\<close> that \<^verbatim>\<open>_decrement_stock\<close> raises:
  \<^verbatim>\<open>f"Product {product_id!r}: requested {quantity}, insufficient stock"\<close>, the product
  identifier between single quotes, which is how \<^verbatim>\<open>repr\<close> prints an identifier that holds
  no quote, backslash or control character; for the others \<^verbatim>\<open>repr\<close> escapes or changes the
  quotes, which only changes the text of the message.\<close>

definition insufficient_stock_message :: "string \<Rightarrow> int \<Rightarrow> string" where
  "insufficient_stock_message pid n =
     ''Product '' @ [CHR 0x27] @ pid @ [CHR 0x27] @ '': requested '' @ str_int n
       @ '', insufficient stock''"

text \<open>
  \<^verbatim>\<open>update_item\<close> under a \<^verbatim>\<open>ConditionExpression\<close>: the condition is evaluated on the stored
  item (on the item without attributes when there is none) and the update is applied only
  if it holds.
\<close>

definition update_item_if ::
  "('i \<Rightarrow> bool) \<Rightarrow> 'i \<Rightarrow> ('k \<rightharpoonup> 'i) \<Rightarrow> 'k \<Rightarrow> ('i \<Rightarrow> 'i) \<Rightarrow> exn + ('k \<rightharpoonup> 'i)" where
  "update_item_if cond blank tbl k upd =
     (if cond (case tbl k of None \<Rightarrow> blank | Some it \<Rightarrow> it)
      then Inr (update_item blank tbl k upd)
      else Inl ConditionalCheckFailedException)"

text \<open>\<^verbatim>\<open>_decrement_stock\<close>: \<^verbatim>\<open>SET quantity = quantity - :n, updated_at = :ts\<close> under
  \<^verbatim>\<open>quantity >= :n\<close>. A comparison with a missing attribute is false.\<close>

definition decrement_stock ::
  "string \<Rightarrow> int \<Rightarrow> string \<Rightarrow> string \<Rightarrow> inv_table \<Rightarrow> (exn + unit) \<times> inv_table" where
  "decrement_stock pid n oid ts tbl =
     (case update_item_if
             (\<lambda>it. case inv_quantity it of None \<Rightarrow> False | Some q \<Rightarrow> q \<ge> n)
             no_inventory_attributes tbl pid
             (\<lambda>it. it\<lparr>inv_quantity := map_option (\<lambda>q. q - n) (inv_quantity it),
                       inv_updated_at := Some ts\<rparr>) of
        Inl e \<Rightarrow>
          (if e = ConditionalCheckFailedException
           then (Inl (InsufficientStockError pid n), tbl)
           else (Inl e, tbl))
      | Inr tbl' \<Rightarrow> (Inr (), tbl'))"

text \<open>The loop \<^verbatim>\<open>for item in items: _decrement_stock(...)\<close> of \<^verbatim>\<open>_do_reserve\<close>. An
  exception leaves the loop; the decrements made before it stay in the table.\<close>

fun decrement_each ::
  "OrderItem list \<Rightarrow> string \<Rightarrow> string \<Rightarrow> inv_table \<Rightarrow> (exn + unit) \<times> inv_table" where
  "decrement_each [] oid ts tbl = (Inr (), tbl)"
| "decrement_each (item # rest) oid ts tbl =
     (case decrement_stock (product_id item) (quantity item) oid ts tbl of
        (Inl e, tbl') \<Rightarrow> (Inl e, tbl')
      | (Inr _, tbl') \<Rightarrow> decrement_each rest oid ts tbl')"

definition do_reserve ::
  "'s env \<Rightarrow> string \<Rightarrow> OrderItem list \<Rightarrow> inv_world \<Rightarrow> (exn + response) \<times> inv_world" where
  "do_reserve env oid its w =
     (case decrement_each its oid (utc_now env) (inventory w) of
        (Inl e, tbl') \<Rightarrow> (Inl e, w\<lparr>inventory := tbl'\<rparr>)
      | (Inr _, tbl') \<Rightarrow>
          (Inr [(''success'', JBool True), (''reservation_id'', JStr (uuid4 env))],
           w\<lparr>inventory := tbl',
             reservations := (reservations w)(uuid4 env \<mapsto>
               \<lparr>rsv_order_id = Some oid, rsv_items = Some its,
                rsv_status = Some ''ACTIVE'', rsv_created_at = Some (utc_now env)\<rparr>)\<rparr>))"

text \<open>\<^verbatim>\<open>_reserve\<close>: the items are validated before the idempotent function is called.\<close>

definition reserve ::
  "'s env \<Rightarrow> event \<Rightarrow> inv_world \<Rightarrow> 's idem_table
     \<Rightarrow> (exn + response) \<times> inv_world \<times> 's idem_table" where
  "reserve env ev w idem =
     (case order_id ev of
        None \<Rightarrow> (Inl (KeyError ''order_id''), w, idem)
      | Some oid \<Rightarrow>
          (case items ev of
             None \<Rightarrow> (Inl (KeyError ''items''), w, idem)
           | Some raw \<Rightarrow>
               (case OrderItem_list raw of
                  Inl e \<Rightarrow> (Inl e, w, idem)
                | Inr its \<Rightarrow>
                    idempotent (json_dumps env) (json_loads env) (clock env)
                      (''reserve-'' @ oid) (do_reserve env oid its) w idem)))"

text \<open>The loop of \<^verbatim>\<open>_do_release\<close>: \<^verbatim>\<open>ADD quantity :n\<close> without a condition. \<^verbatim>\<open>ADD\<close> on a
  missing attribute starts from 0.\<close>

fun add_back :: "OrderItem list \<Rightarrow> inv_table \<Rightarrow> inv_table" where
  "add_back [] tbl = tbl"
| "add_back (item # rest) tbl =
     add_back rest
       (update_item no_inventory_attributes tbl (product_id item)
          (\<lambda>it. it\<lparr>inv_quantity :=
                      Some ((case inv_quantity it of None \<Rightarrow> 0 | Some q \<Rightarrow> q)
                            + quantity item)\<rparr>))"

definition do_release :: "string \<Rightarrow> string \<Rightarrow> inv_world \<Rightarrow> (exn + response) \<times> inv_world" where
  "do_release rid oid w =
     (case reservations w rid of
        None \<Rightarrow>
          (Inr [(''success'', JBool True), (''message'', JStr ''Nothing to release'')], w)
      | Some reservation \<Rightarrow>
          (case rsv_items reservation of
             None \<Rightarrow> (Inl (KeyError ''items''), w)
           | Some raw \<Rightarrow>
               (case OrderItem_list raw of
                  Inl e \<Rightarrow> (Inl e, w)
                | Inr its \<Rightarrow>
                    (Inr [(''success'', JBool True)],
                     w\<lparr>inventory := add_back its (inventory w),
                       reservations :=
                         update_item no_reservation_attributes (reservations w) rid
                           (\<lambda>r. r\<lparr>rsv_status := Some ''RELEASED''\<rparr>)\<rparr>))))"

definition release ::
  "'s env \<Rightarrow> event \<Rightarrow> inv_world \<Rightarrow> 's idem_table
     \<Rightarrow> (exn + response) \<times> inv_world \<times> 's idem_table" where
  "release env ev w idem =
     (case reservation_id ev of
        None \<Rightarrow> (Inl (KeyError ''reservation_id''), w, idem)
      | Some rid \<Rightarrow>
          (case order_id ev of
             None \<Rightarrow> (Inl (KeyError ''order_id''), w, idem)
           | Some oid \<Rightarrow>
               idempotent (json_dumps env) (json_loads env) (clock env)
                 (''release-'' @ rid) (do_release rid oid) w idem))"

text \<open>The entry point: \<^verbatim>\<open>InsufficientStockError\<close> becomes a structured failure, any other
  exception is raised again.\<close>

definition inventory_handler ::
  "'s env \<Rightarrow> event \<Rightarrow> inv_world \<Rightarrow> 's idem_table
     \<Rightarrow> (exn + response) \<times> inv_world \<times> 's idem_table" where
  "inventory_handler env ev w idem =
     (case (if action ev = Some ''reserve'' then reserve env ev w idem
            else if action ev = Some ''release'' then release env ev w idem
            else (Inl (ValueError ''Unknown action''), w, idem)) of
        (Inl (InsufficientStockError p n), w', idem') \<Rightarrow>
          (Inr [(''success'', JBool False), (''error'', JStr ''INSUFFICIENT_STOCK''),
                (''message'', JStr (insufficient_stock_message p n))], w', idem')
      | other \<Rightarrow> other)"

text \<open>A product is in order when its item is stored with a quantity that is not negative.\<close>

definition stock_ok :: "inv_table \<Rightarrow> string \<Rightarrow> bool" where
  "stock_ok tbl p =
     (case tbl p of
        None \<Rightarrow> False
      | Some it \<Rightarrow> (case inv_quantity it of None \<Rightarrow> False | Some q \<Rightarrow> 0 \<le> q))"

text \<open>Sample data for the concrete evaluations below: an invocation environment whose
  serialiser keeps the response as it is, and a seeded product.\<close>

definition sample_env :: "response env" where
  "sample_env =
     \<lparr>json_dumps = Some, json_loads = Some, clock = 1000,
      utc_now = ''2024-01-01T00:00:00+00:00'', uuid4 = ''res-1'',
      provider_timed_out = False, provider_hex = ''0123456789abcdef''\<rparr>"

definition seeded :: "int \<Rightarrow> inventory_item" where
  "seeded q =
     \<lparr>inv_quantity = Some q, inv_updated_at = None, inv_unit_price_cents = Some 500,
      inv_name = None\<rparr>"

definition reserve_event :: "string \<Rightarrow> OrderItem list \<Rightarrow> event" where
  "reserve_event oid its =
     \<lparr>action = Some ''reserve'', order_id = Some oid, reservation_id = None,
      items = Some its, correlation_id = Some ''corr-1'', customer_id = None,
      total_cents = None, payment_id = None\<rparr>"

definition release_event :: "string \<Rightarrow> string \<Rightarrow> event" where
  "release_event oid rid =
     \<lparr>action = Some ''release'', order_id = Some oid, reservation_id = Some rid,
      items = None, correlation_id = Some ''corr-1'', customer_id = None,
      total_cents = None, payment_id = None\<rparr>"

section \<open>Orders: services/shared/dynamodb.py and services/order\_service/repository.py\<close>

datatype OrderStatus =
    PENDING | INVENTORY_RESERVED | PAYMENT_CHARGED | CONFIRMED
  | INVENTORY_FAILED | PAYMENT_FAILED | FAILED | COMPENSATING

text \<open>
  The orders table has the composite key \<^verbatim>\<open>(pk, sk)\<close>. The row \<^verbatim>\<open>(ORDER#id, META)\<close> holds the
  order, the rows \<^verbatim>\<open>(ORDER#id, EVENT#ts)\<close> its event log; both kinds are items of one
  table, so one record with optional attributes models them.
\<close>

record order_row =
  ord_order_id :: "string option"
  ord_customer_id :: "string option"
  ord_items :: "OrderItem list option"
  ord_total_cents :: "int option"
  ord_status :: "OrderStatus option"
  ord_correlation_id :: "string option"
  ord_created_at :: "string option"
  ord_updated_at :: "string option"
  ord_version :: "int option"
  ord_metadata :: "response option"
  ord_occurred_at :: "string option"

type_synonym orders_table = "(string \<times> string) \<rightharpoonup> order_row"

definition no_order_attributes :: order_row where
  "no_order_attributes =
     \<lparr>ord_order_id = None, ord_customer_id = None, ord_items = None, ord_total_cents = None,
      ord_status = None, ord_correlation_id = None, ord_created_at = None,
      ord_updated_at = None, ord_version = None, ord_metadata = None,
      ord_occurred_at = None\<rparr>"

text \<open>\<^verbatim>\<open>put_item\<close> under a condition on the stored item; a condition on an attribute of an
  item that does not exist is false.\<close>

definition put_item_if ::
  "('i \<Rightarrow> bool) \<Rightarrow> 'i \<Rightarrow> ('k \<rightharpoonup> 'i) \<Rightarrow> 'k \<Rightarrow> 'i \<Rightarrow> exn + ('k \<rightharpoonup> 'i)" where
  "put_item_if cond blank tbl k it =
     (if cond (case tbl k of None \<Rightarrow> blank | Some stored \<Rightarrow> stored)
      then Inr (tbl(k \<mapsto> it))
      else Inl ConditionalCheckFailedException)"

text \<open>
  \<^verbatim>\<open>put_item_with_optimistic_lock\<close>, with \<^verbatim>\<open>version_key = "version"\<close>; \<open>key\<close> is the
  \<^verbatim>\<open>(pk, sk)\<close> of the item. Version 0 means a new item, written under
  \<^verbatim>\<open>Attr("pk").not_exists()\<close>; any other version is written under
  \<^verbatim>\<open>Attr("version").eq(current_version)\<close>.
\<close>

definition put_item_with_optimistic_lock ::
  "orders_table \<Rightarrow> string \<times> string \<Rightarrow> order_row \<Rightarrow> exn + orders_table" where
  "put_item_with_optimistic_lock tbl key item =
     (let current_version = (case ord_version item of None \<Rightarrow> 0 | Some v \<Rightarrow> v);
          new_item = item\<lparr>ord_version := Some (current_version + 1)\<rparr>
      in case (if current_version = 0
               then put_item_if_not_exists tbl key new_item
               else put_item_if (\<lambda>stored. ord_version stored = Some current_version)
                      no_order_attributes tbl key new_item) of
           Inl e \<Rightarrow>
             (if e = ConditionalCheckFailedException
              then Inl (OptimisticLockError current_version)
              else Inl e)
         | Inr tbl' \<Rightarrow> Inr tbl')"

text \<open>\<^verbatim>\<open>_append_event\<close>: an unconditional \<^verbatim>\<open>put_item\<close> under the sort key
  \<^verbatim>\<open>EVENT#<microseconds>\<close>. The microseconds are those of the exact product; the
  floating-point product of the source can differ from it by one.\<close>

definition append_event ::
  "real \<Rightarrow> string \<Rightarrow> string \<Rightarrow> OrderStatus \<Rightarrow> response \<Rightarrow> orders_table \<Rightarrow> orders_table" where
  "append_event clk stamp oid st metadata tbl =
     tbl((''ORDER#'' @ oid, ''EVENT#'' @ str_int (py_int (clk * 1000000))) \<mapsto>
           no_order_attributes\<lparr>ord_status := Some st, ord_metadata := Some metadata,
                                ord_occurred_at := Some stamp\<rparr>)"

text \<open>\<^verbatim>\<open>OrderRepository.create\<close> returns the dictionary it built, which still carries
  version 0.\<close>

definition create ::
  "real \<Rightarrow> string \<Rightarrow> string \<Rightarrow> string \<Rightarrow> OrderItem list \<Rightarrow> int \<Rightarrow> string \<Rightarrow> orders_table
     \<Rightarrow> (exn + order_row) \<times> orders_table" where
  "create clk stamp oid cust its cents corr tbl =
     (let item = no_order_attributes
                   \<lparr>ord_order_id := Some oid, ord_customer_id := Some cust,
                    ord_items := Some its, ord_total_cents := Some cents,
                    ord_status := Some PENDING, ord_correlation_id := Some corr,
                    ord_created_at := Some stamp, ord_updated_at := Some stamp,
                    ord_version := Some 0\<rparr>
      in case put_item_with_optimistic_lock tbl (''ORDER#'' @ oid, ''META'') item of
           Inl e \<Rightarrow> (Inl e, tbl)
         | Inr tbl' \<Rightarrow> (Inr item, append_event clk stamp oid PENDING [] tbl'))"

text \<open>
  \<^verbatim>\<open>OrderRepository.update_status\<close>: \<^verbatim>\<open>SET #st = :s, updated_at = :u ADD version :one\<close> with
  no condition expression, then the event. It takes no version from its caller.
\<close>

definition update_status ::
  "real \<Rightarrow> string \<Rightarrow> string \<Rightarrow> OrderStatus \<Rightarrow> response option \<Rightarrow> orders_table
     \<Rightarrow> orders_table" where
  "update_status clk stamp oid st metadata tbl =
     append_event clk stamp oid st (case metadata of None \<Rightarrow> [] | Some m \<Rightarrow> m)
       (update_item no_order_attributes tbl (''ORDER#'' @ oid, ''META'')
          (\<lambda>it. it\<lparr>ord_status := Some st, ord_updated_at := Some stamp,
                    ord_version :=
                      Some ((case ord_version it of None \<Rightarrow> 0 | Some v \<Rightarrow> v) + 1)\<rparr>))"

definition get_order :: "string \<Rightarrow> orders_table \<Rightarrow> order_row option" where
  "get_order oid tbl = tbl (''ORDER#'' @ oid, ''META'')"

text \<open>Sample data: the order that \<^verbatim>\<open>create\<close> stores in an empty table.\<close>

definition sample_order :: orders_table where
  "sample_order =
     snd (create 1000 ''2024-01-01T00:00:00+00:00'' ''o1'' ''alice''
            [\<lparr>product_id = ''A'', quantity = 1, unit_price_cents = 500\<rparr>] 500 ''corr-1''
            Map.empty)"

section \<open>Payment service: services/payment\_service/handler.py\<close>

record payment_item =
  pay_order_id :: "string option"
  pay_customer_id :: "string option"
  pay_amount_cents :: "int option"
  pay_provider_charge_id :: "jval option"
  pay_status :: "string option"
  pay_created_at :: "string option"

record pay_world =
  payments :: "string \<rightharpoonup> payment_item"
  circuit_breakers :: cb_table

definition no_payment_attributes :: payment_item where
  "no_payment_attributes =
     \<lparr>pay_order_id = None, pay_customer_id = None, pay_amount_cents = None,
      pay_provider_charge_id = None, pay_status = None, pay_created_at = None\<rparr>"

definition payment_circuit_breaker :: CircuitBreaker where
  "payment_circuit_breaker =
     \<lparr>name = ''external-payment-provider'', failure_threshold = 5, success_threshold = 2,
      timeout_seconds = 60\<rparr>"

text \<open>Python truth value and \<^verbatim>\<open>str\<close> of the values a response dictionary holds.\<close>

definition truthy :: "jval option \<Rightarrow> bool" where
  "truthy v =
     (case v of
        None \<Rightarrow> False
      | Some (JBool b) \<Rightarrow> b
      | Some (JStr s) \<Rightarrow> s \<noteq> []
      | Some (JInt i) \<Rightarrow> i \<noteq> 0)"

definition py_str :: "jval \<Rightarrow> string" where
  "py_str v =
     (case v of
        JBool b \<Rightarrow> (if b then ''True'' else ''False'')
      | JStr s \<Rightarrow> s
      | JInt i \<Rightarrow> str_int i)"

text \<open>\<^verbatim>\<open>_call_payment_provider\<close>, the mock of the external provider: it raises on the
  simulated timeout and otherwise answers by action.\<close>

definition call_payment_provider :: "'s env \<Rightarrow> string \<Rightarrow> exn + response" where
  "call_payment_provider env act =
     (if provider_timed_out env then Inl (ConnectionError ''Payment provider timed out'')
      else if act = ''charge'' then
        Inr [(''success'', JBool True), (''charge_id'', JStr (''ch_'' @ provider_hex env))]
      else if act = ''refund'' then Inr [(''success'', JBool True)]
      else Inl (ValueError ''Unknown provider action''))"

definition do_charge ::
  "'s env \<Rightarrow> string \<Rightarrow> string \<Rightarrow> int \<Rightarrow> pay_world \<Rightarrow> (exn + response) \<times> pay_world" where
  "do_charge env oid cust amount w =
     (case call payment_circuit_breaker (clock env) (clock env)
             (\<lambda>u::unit. (call_payment_provider env ''charge'', u)) () (circuit_breakers w) of
        (Inl e, _, cbt) \<Rightarrow> (Inl e, w\<lparr>circuit_breakers := cbt\<rparr>)
      | (Inr provider_response, _, cbt) \<Rightarrow>
          if \<not> truthy (map_of provider_response ''success'') then
            (Inl (PaymentDeclinedError
                    (case map_of provider_response ''decline_reason'' of
                       None \<Rightarrow> ''Card declined'' | Some reason \<Rightarrow> py_str reason)),
             w\<lparr>circuit_breakers := cbt\<rparr>)
          else
            (case map_of provider_response ''charge_id'' of
               None \<Rightarrow> (Inl (KeyError ''charge_id''), w\<lparr>circuit_breakers := cbt\<rparr>)
             | Some charge_id \<Rightarrow>
                 (Inr [(''success'', JBool True), (''payment_id'', JStr (uuid4 env))],
                  w\<lparr>circuit_breakers := cbt,
                    payments := (payments w)(uuid4 env \<mapsto>
                      \<lparr>pay_order_id = Some oid, pay_customer_id = Some cust,
                       pay_amount_cents = Some amount,
                       pay_provider_charge_id = Some charge_id,
                       pay_status = Some ''CHARGED'',
                       pay_created_at = Some (utc_now env)\<rparr>)\<rparr>)))"

definition charge ::
  "'s env \<Rightarrow> event \<Rightarrow> pay_world \<Rightarrow> 's idem_table
     \<Rightarrow> (exn + response) \<times> pay_world \<times> 's idem_table" where
  "charge env ev w idem =
     (case order_id ev of
        None \<Rightarrow> (Inl (KeyError ''order_id''), w, idem)
      | Some oid \<Rightarrow>
          (case customer_id ev of
             None \<Rightarrow> (Inl (KeyError ''customer_id''), w, idem)
           | Some cust \<Rightarrow>
               (case total_cents ev of
                  None \<Rightarrow> (Inl (KeyError ''total_cents''), w, idem)
                | Some amount \<Rightarrow>
                    idempotent (json_dumps env) (json_loads env) (clock env)
                      (''charge-'' @ oid) (do_charge env oid cust amount) w idem)))"

definition do_refund :: "'s env \<Rightarrow> string \<Rightarrow> pay_world \<Rightarrow> (exn + response) \<times> pay_world" where
  "do_refund env pid w =
     (case payments w pid of
        None \<Rightarrow>
          (Inr [(''success'', JBool True), (''message'', JStr ''Nothing to refund'')], w)
      | Some payment \<Rightarrow>
          (case pay_provider_charge_id payment of
             None \<Rightarrow> (Inl (KeyError ''provider_charge_id''), w)
           | Some provider_charge_id \<Rightarrow>
               (case call payment_circuit_breaker (clock env) (clock env)
                       (\<lambda>u::unit. (call_payment_provider env ''refund'', u)) ()
                       (circuit_breakers w) of
                  (Inl e, _, cbt) \<Rightarrow> (Inl e, w\<lparr>circuit_breakers := cbt\<rparr>)
                | (Inr _, _, cbt) \<Rightarrow>
                    (Inr [(''success'', JBool True)],
                     w\<lparr>circuit_breakers := cbt,
                       payments :=
                         update_item no_payment_attributes (payments w) pid
                           (\<lambda>p. p\<lparr>pay_status := Some ''REFUNDED''\<rparr>)\<rparr>))))"

definition refund ::
  "'s env \<Rightarrow> event \<Rightarrow> pay_world \<Rightarrow> 's idem_table
     \<Rightarrow> (exn + response) \<times> pay_world \<times> 's idem_table" where
  "refund env ev w idem =
     (case order_id ev of
        None \<Rightarrow> (Inl (KeyError ''order_id''), w, idem)
      | Some oid \<Rightarrow>
          (case payment_id ev of
             None \<Rightarrow>
               (Inr [(''success'', JBool True), (''message'', JStr ''Nothing to refund'')],
                w, idem)
           | Some pid \<Rightarrow>
               if pid = [] then
                 (Inr [(''success'', JBool True), (''message'', JStr ''Nothing to refund'')],
                  w, idem)
               else
                 idempotent (json_dumps env) (json_loads env) (clock env)
                   (''refund-'' @ pid) (do_refund env pid) w idem))"

definition payment_handler ::
  "'s env \<Rightarrow> event \<Rightarrow> pay_world \<Rightarrow> 's idem_table
     \<Rightarrow> (exn + response) \<times> pay_world \<times> 's idem_table" where
  "payment_handler env ev w idem =
     (case (if action ev = Some ''charge'' then charge env ev w idem
            else if action ev = Some ''refund'' then refund env ev w idem
            else (Inl (ValueError ''Unknown action''), w, idem)) of
        (Inl (CircuitBreakerOpenError n resets), w', idem') \<Rightarrow>
          (Inr [(''success'', JBool False), (''error'', JStr ''PAYMENT_PROVIDER_UNAVAILABLE''),
                (''message'',
                 JStr ''Payment service temporarily unavailable. Please retry shortly.''),
                (''retry_after_seconds'', JInt (py_int (resets - clock env)))], w', idem')
      | (Inl (PaymentDeclinedError reason), w', idem') \<Rightarrow>
          (Inr [(''success'', JBool False), (''error'', JStr ''PAYMENT_DECLINED''),
                (''message'', JStr reason)], w', idem')
      | other \<Rightarrow> other)"

section \<open>Saga state machine: infrastructure/cloudflow/saga\_stack.py\<close>

text \<open>
  The stack declares the states of a Step Functions definition and chains them. This
  section gives each declared state its behaviour and the successor the source chains to
  it; whether the chaining itself can be built is the subject of the next section. The
  data of an execution is one JSON document, modelled
  by a record whose fields are the paths the states read or write; \<open>None\<close> is a path that
  is absent. The input document is the \<^verbatim>\<open>SagaContext\<close> that the order service serialises.
  A task whose parameters name an absent path fails the execution
  (\<^verbatim>\<open>States.Runtime\<close>), and so does a Lambda function that raises: the tasks retry only
  Lambda service exceptions and the definition has no \<^verbatim>\<open>Catch\<close>.
\<close>

record saga_doc =
  doc_order_id :: "string option"
  doc_customer_id :: "string option"
  doc_total_cents :: "int option"
  doc_items :: "OrderItem list option"
  doc_correlation_id :: "string option"
  doc_inventory_result :: "response option"
  doc_payment_result :: "response option"
  doc_release_result :: "response option"
  doc_error :: "string option"

definition no_paths :: saga_doc where
  "no_paths =
     \<lparr>doc_order_id = None, doc_customer_id = None, doc_total_cents = None,
      doc_items = None, doc_correlation_id = None, doc_inventory_result = None,
      doc_payment_result = None, doc_release_result = None, doc_error = None\<rparr>"

text \<open>Everything the execution can reach: the tables of the two services, the shared
  idempotency table, the orders table and the notification queue.\<close>

record 's saga_store =
  inv :: inv_world
  pay :: pay_world
  idempotency :: "'s idem_table"
  orders :: orders_table
  notifications :: "response list"

datatype saga_end =
  OrderConfirmed | OrderFailed string | ExecutionFailed string | StateMachineDoesNotExist

text \<open>One environment for each Lambda invocation of an execution.\<close>

record 's saga_envs =
  env_reserve :: "'s env"
  env_charge :: "'s env"
  env_release :: "'s env"

definition blank_event :: event where
  "blank_event =
     \<lparr>action = None, order_id = None, reservation_id = None, items = None,
      correlation_id = None, customer_id = None, total_cents = None, payment_id = None\<rparr>"

text \<open>The terminal states \<^verbatim>\<open>OrderConfirmed\<close> (Succeed) and \<^verbatim>\<open>OrderFailed\<close> (Fail).\<close>

definition order_confirmed :: "saga_doc \<Rightarrow> 's saga_store \<Rightarrow> saga_end \<times> 's saga_store" where
  "order_confirmed doc st = (OrderConfirmed, st)"

definition order_failed :: "saga_doc \<Rightarrow> 's saga_store \<Rightarrow> saga_end \<times> 's saga_store" where
  "order_failed doc st = (OrderFailed ''SAGA compensation complete'', st)"

text \<open>\<^verbatim>\<open>NotifyOrderConfirmed\<close> and \<^verbatim>\<open>NotifyOrderFailed\<close>: \<^verbatim>\<open>SqsSendMessage\<close>, result discarded.\<close>

definition notify_confirmed :: "saga_doc \<Rightarrow> 's saga_store \<Rightarrow> saga_end \<times> 's saga_store" where
  "notify_confirmed doc st =
     (case (doc_order_id doc, doc_customer_id doc, doc_total_cents doc) of
        (Some oid, Some cust, Some cents) \<Rightarrow>
          order_confirmed doc
            (st\<lparr>notifications := notifications st @
                  [[(''notification_type'', JStr ''ORDER_CONFIRMED''), (''order_id'', JStr oid),
                    (''customer_id'', JStr cust), (''total_cents'', JInt cents)]]\<rparr>)
      | _ \<Rightarrow> (ExecutionFailed ''States.Runtime'', st))"

definition notify_failed :: "saga_doc \<Rightarrow> 's saga_store \<Rightarrow> saga_end \<times> 's saga_store" where
  "notify_failed doc st =
     (case (doc_order_id doc, doc_customer_id doc, doc_error doc) of
        (Some oid, Some cust, Some err) \<Rightarrow>
          order_failed doc
            (st\<lparr>notifications := notifications st @
                  [[(''notification_type'', JStr ''ORDER_FAILED''), (''order_id'', JStr oid),
                    (''customer_id'', JStr cust), (''error_reason'', JStr err)]]\<rparr>)
      | _ \<Rightarrow> (ExecutionFailed ''States.Runtime'', st))"

text \<open>\<^verbatim>\<open>ReleaseInventory\<close>, the head of the compensation chain
  \<^verbatim>\<open>release_inventory.next(notify_failed).next(order_failed)\<close>.\<close>

definition release_inventory ::
  "'s saga_envs \<Rightarrow> saga_doc \<Rightarrow> 's saga_store \<Rightarrow> saga_end \<times> 's saga_store" where
  "release_inventory envs doc st =
     (case (doc_order_id doc,
            case doc_inventory_result doc of
              None \<Rightarrow> None | Some body \<Rightarrow> map_of body ''reservation_id'',
            doc_correlation_id doc) of
        (Some oid, Some rid, Some corr) \<Rightarrow>
          (case inventory_handler (env_release envs)
                  (blank_event\<lparr>action := Some ''release'', order_id := Some oid,
                                reservation_id := Some (py_str rid),
                                correlation_id := Some corr\<rparr>)
                  (inv st) (idempotency st) of
             (Inl e, w', idem') \<Rightarrow>
               (ExecutionFailed ''Lambda function error'', st\<lparr>inv := w', idempotency := idem'\<rparr>)
           | (Inr body, w', idem') \<Rightarrow>
               notify_failed (doc\<lparr>doc_release_result := Some body\<rparr>)
                 (st\<lparr>inv := w', idempotency := idem'\<rparr>))
      | _ \<Rightarrow> (ExecutionFailed ''States.Runtime'', st))"

text \<open>The Choice \<^verbatim>\<open>PaymentSucceeded?\<close>. The Pass state \<^verbatim>\<open>SetPaymentFailedError\<close> has
  \<^verbatim>\<open>parameters={"error": ...}\<close> and \<^verbatim>\<open>result_path="$"\<close>: its output replaces the document.\<close>

definition payment_succeeded ::
  "'s saga_envs \<Rightarrow> saga_doc \<Rightarrow> 's saga_store \<Rightarrow> saga_end \<times> 's saga_store" where
  "payment_succeeded envs doc st =
     (case doc_payment_result doc of
        None \<Rightarrow> (ExecutionFailed ''States.Runtime'', st)
      | Some body \<Rightarrow>
          (case map_of body ''success'' of
             None \<Rightarrow> (ExecutionFailed ''States.Runtime'', st)
           | Some v \<Rightarrow>
               if v = JBool True then notify_confirmed doc st
               else release_inventory envs
                      (no_paths\<lparr>doc_error :=
                          Some ''Payment declined or provider unavailable''\<rparr>) st))"

definition charge_payment ::
  "'s saga_envs \<Rightarrow> saga_doc \<Rightarrow> 's saga_store \<Rightarrow> saga_end \<times> 's saga_store" where
  "charge_payment envs doc st =
     (case (doc_order_id doc, doc_customer_id doc, doc_total_cents doc,
            doc_correlation_id doc) of
        (Some oid, Some cust, Some cents, Some corr) \<Rightarrow>
          (case payment_handler (env_charge envs)
                  (blank_event\<lparr>action := Some ''charge'', order_id := Some oid,
                                customer_id := Some cust, total_cents := Some cents,
                                correlation_id := Some corr\<rparr>)
                  (pay st) (idempotency st) of
             (Inl e, w', idem') \<Rightarrow>
               (ExecutionFailed ''Lambda function error'', st\<lparr>pay := w', idempotency := idem'\<rparr>)
           | (Inr body, w', idem') \<Rightarrow>
               payment_succeeded envs (doc\<lparr>doc_payment_result := Some body\<rparr>)
                 (st\<lparr>pay := w', idempotency := idem'\<rparr>))
      | _ \<Rightarrow> (ExecutionFailed ''States.Runtime'', st))"

text \<open>The Choice \<^verbatim>\<open>InventoryReserved?\<close>; its default goes through the Pass states
  \<^verbatim>\<open>SetInventoryFailedError\<close> (which replaces the document) and \<^verbatim>\<open>NoInventoryToRelease\<close>.\<close>

definition inventory_succeeded ::
  "'s saga_envs \<Rightarrow> saga_doc \<Rightarrow> 's saga_store \<Rightarrow> saga_end \<times> 's saga_store" where
  "inventory_succeeded envs doc st =
     (case doc_inventory_result doc of
        None \<Rightarrow> (ExecutionFailed ''States.Runtime'', st)
      | Some body \<Rightarrow>
          (case map_of body ''success'' of
             None \<Rightarrow> (ExecutionFailed ''States.Runtime'', st)
           | Some v \<Rightarrow>
               if v = JBool True then charge_payment envs doc st
               else notify_failed (no_paths\<lparr>doc_error := Some ''Insufficient stock''\<rparr>) st))"

text \<open>\<^verbatim>\<open>ReserveInventory\<close>, the start state.\<close>

definition reserve_inventory ::
  "'s saga_envs \<Rightarrow> saga_doc \<Rightarrow> 's saga_store \<Rightarrow> saga_end \<times> 's saga_store" where
  "reserve_inventory envs doc st =
     (case (doc_order_id doc, doc_items doc, doc_correlation_id doc) of
        (Some oid, Some its, Some corr) \<Rightarrow>
          (case inventory_handler (env_reserve envs)
                  (blank_event\<lparr>action := Some ''reserve'', order_id := Some oid,
                                items := Some its, correlation_id := Some corr\<rparr>)
                  (inv st) (idempotency st) of
             (Inl e, w', idem') \<Rightarrow>
               (ExecutionFailed ''Lambda function error'', st\<lparr>inv := w', idempotency := idem'\<rparr>)
           | (Inr body, w', idem') \<Rightarrow>
               inventory_succeeded envs (doc\<lparr>doc_inventory_result := Some body\<rparr>)
                 (st\<lparr>inv := w', idempotency := idem'\<rparr>))
      | _ \<Rightarrow> (ExecutionFailed ''States.Runtime'', st))"

text \<open>The \<^verbatim>\<open>SagaContext\<close> of an order, the input document of an execution.\<close>

definition saga_input :: "string \<Rightarrow> string \<Rightarrow> int \<Rightarrow> OrderItem list \<Rightarrow> string \<Rightarrow> saga_doc" where
  "saga_input oid cust cents its corr =
     no_paths\<lparr>doc_order_id := Some oid, doc_customer_id := Some cust,
              doc_total_cents := Some cents, doc_items := Some its,
              doc_correlation_id := Some corr\<rparr>"

text \<open>Sample data: the store after the sample order was created, with 10 units of product
  \<open>A\<close>, and the environments of the three Lambda invocations.\<close>

definition sample_store :: "response saga_store" where
  "sample_store =
     \<lparr>inv = \<lparr>inventory = [''A'' \<mapsto> seeded 10], reservations = Map.empty\<rparr>,
      pay = \<lparr>payments = Map.empty, circuit_breakers = Map.empty\<rparr>,
      idempotency = Map.empty,
      orders = sample_order,
      notifications = []\<rparr>"

definition sample_envs :: "response saga_envs" where
  "sample_envs =
     \<lparr>env_reserve = sample_env,
      env_charge = sample_env\<lparr>clock := 1001, uuid4 := ''pay-1''\<rparr>,
      env_release = sample_env\<lparr>clock := 1002\<rparr>\<rparr>"

section \<open>Building the state machine: SagaStack.\_\_init\_\_\<close>

text \<open>
  \<^verbatim>\<open>SagaStack.__init__\<close> builds the definition with the CDK: every state is a construct with
  an identifier, and \<^verbatim>\<open>next\<close>, \<^verbatim>\<open>when\<close> and \<^verbatim>\<open>otherwise\<close> link the constructs. The links are
  kept in the constructs, so building is a sequence of updates of one graph, and an update
  can raise. What the CDK does on each call:
  \<^item> a Task or Pass state may be given one successor: \<^verbatim>\<open>next\<close> on a state that already has
    one raises \<^verbatim>\<open>State '<id>' already has a next state\<close>;
  \<^item> a chainable has a start state and end states: a Task or Pass state ends in itself, a
    Choice, Succeed or Fail state has no end state;
  \<^item> \<^verbatim>\<open>a.next(b)\<close> gives every end state of \<open>a\<close> the start state of \<open>b\<close> as successor and
    returns the chain from the start of \<open>a\<close> to the end states of \<open>b\<close>; on a chain without
    end states it raises;
  \<^item> \<^verbatim>\<open>when\<close> adds a branch to a Choice, \<^verbatim>\<open>otherwise\<close> sets its default and raises when a
    default is already set.
  An exception leaves \<^verbatim>\<open>__init__\<close>: the statements after it, among them the creation of the
  \<^verbatim>\<open>StateMachine\<close>, are not executed.
\<close>

datatype state_kind = TaskState | PassState | ChoiceState | SucceedState | FailState

record definition_graph =
  kinds :: "string \<rightharpoonup> state_kind"
  next_of :: "string \<rightharpoonup> string"
  branches :: "(string \<times> string) list"
  default_of :: "string \<rightharpoonup> string"
  start_at :: "string option"

record chain =
  start_state :: string
  end_states :: "string list"
  last_added :: string

type_synonym 'a build = "definition_graph \<Rightarrow> exn + ('a \<times> definition_graph)"

definition no_constructs :: definition_graph where
  "no_constructs =
     \<lparr>kinds = Map.empty, next_of = Map.empty, branches = [], default_of = Map.empty,
      start_at = None\<rparr>"

text \<open>Sequencing of two building steps: the second runs on the graph the first left, unless
  the first raised.\<close>

definition then_do :: "'a build \<Rightarrow> ('a \<Rightarrow> 'b build) \<Rightarrow> 'b build" where
  "then_do m f g = (case m g of Inl e \<Rightarrow> Inl e | Inr (x, g') \<Rightarrow> f x g')"

definition quoted :: "string \<Rightarrow> string" where
  "quoted s = [CHR 0x27] @ s @ [CHR 0x27]"

text \<open>A new state construct, as the chainable it is. The scope refuses a second construct
  with the same identifier.\<close>

definition new_state :: "string \<Rightarrow> state_kind \<Rightarrow> chain build" where
  "new_state ident kind g =
     (if kinds g ident \<noteq> None
      then Inl (RuntimeError (''There is already a Construct with name '' @ quoted ident))
      else Inr (\<lparr>start_state = ident,
                 end_states = (if kind = TaskState \<or> kind = PassState then [ident] else []),
                 last_added = ident\<rparr>,
                g\<lparr>kinds := (kinds g)(ident \<mapsto> kind)\<rparr>))"

text \<open>\<^verbatim>\<open>State.makeNext\<close>.\<close>

definition make_next :: "string \<Rightarrow> string \<Rightarrow> unit build" where
  "make_next s n g =
     (if next_of g s \<noteq> None
      then Inl (RuntimeError (''State '' @ quoted s @ '' already has a next state''))
      else Inr ((), g\<lparr>next_of := (next_of g)(s \<mapsto> n)\<rparr>))"

fun make_next_each :: "string list \<Rightarrow> string \<Rightarrow> unit build" where
  "make_next_each [] n g = Inr ((), g)"
| "make_next_each (s # rest) n g =
     (case make_next s n g of
        Inl e \<Rightarrow> Inl e
      | Inr (_, g') \<Rightarrow> make_next_each rest n g')"

text \<open>\<^verbatim>\<open>a.next(b)\<close>, for a Task or Pass state \<open>a\<close> and for a chain \<open>a\<close>. (Choice, Succeed
  and Fail states have no \<^verbatim>\<open>next\<close> method; the constructor calls it on none of them.)\<close>

definition chain_next :: "chain \<Rightarrow> chain \<Rightarrow> chain build" where
  "chain_next a b g =
     (if end_states a = []
      then Inl (RuntimeError (''Cannot add to chain: last state in chain ('' @ last_added a
                              @ '') does not allow it''))
      else (case make_next_each (end_states a) (start_state b) g of
              Inl e \<Rightarrow> Inl e
            | Inr (_, g') \<Rightarrow>
                Inr (\<lparr>start_state = start_state a, end_states = end_states b,
                      last_added = last_added b\<rparr>, g')))"

definition choice_when :: "chain \<Rightarrow> chain \<Rightarrow> unit build" where
  "choice_when c target g =
     Inr ((), g\<lparr>branches := branches g @ [(start_state c, start_state target)]\<rparr>)"

definition choice_otherwise :: "chain \<Rightarrow> chain \<Rightarrow> unit build" where
  "choice_otherwise c target g =
     (if default_of g (start_state c) \<noteq> None
      then Inl (RuntimeError
                  (''Choice '' @ quoted (start_state c) @ '' already has a default next state''))
      else Inr ((), g\<lparr>default_of := (default_of g)(start_state c \<mapsto> start_state target)\<rparr>))"

definition state_machine :: "chain \<Rightarrow> unit build" where
  "state_machine definition_body g = Inr ((), g\<lparr>start_at := Some (start_state definition_body)\<rparr>)"

text \<open>
  The statements of \<^verbatim>\<open>SagaStack.__init__\<close> that create or link states, in the order Python
  evaluates them (the receiver of a call before its arguments, an inner call before the
  call it is an argument of). The result is the graph of the definition, or the exception
  that left the constructor.
\<close>

definition SagaStack_init :: "exn + definition_graph" where
  "SagaStack_init =
     map_sum id snd
       ((then_do (new_state ''ReserveInventory'' TaskState) (\<lambda>reserve_inventory.
         then_do (new_state ''ReleaseInventory'' TaskState) (\<lambda>release_inventory.
         then_do (new_state ''ChargePayment'' TaskState) (\<lambda>charge_payment.
         then_do (new_state ''NotifyOrderConfirmed'' TaskState) (\<lambda>notify_confirmed.
         then_do (new_state ''NotifyOrderFailed'' TaskState) (\<lambda>notify_failed.
         then_do (new_state ''OrderConfirmed'' SucceedState) (\<lambda>order_confirmed.
         then_do (new_state ''OrderFailed'' FailState) (\<lambda>order_failed.
         then_do (chain_next release_inventory notify_failed) (\<lambda>c1.
         then_do (chain_next c1 order_failed) (\<lambda>compensation_chain.
         then_do (new_state ''PaymentSucceeded?'' ChoiceState) (\<lambda>payment_succeeded.
         then_do (chain_next notify_confirmed order_confirmed) (\<lambda>c2.
         then_do (choice_when payment_succeeded c2) (\<lambda>_.
         then_do (new_state ''SetPaymentFailedError'' PassState) (\<lambda>set_payment_failed.
         then_do (chain_next set_payment_failed compensation_chain) (\<lambda>c3.
         then_do (choice_otherwise payment_succeeded c3) (\<lambda>_.
         then_do (chain_next charge_payment payment_succeeded) (\<lambda>_.
         then_do (new_state ''InventoryReserved?'' ChoiceState) (\<lambda>inventory_succeeded.
         then_do (choice_when inventory_succeeded charge_payment) (\<lambda>_.
         then_do (new_state ''SetInventoryFailedError'' PassState) (\<lambda>set_inventory_failed.
         then_do (new_state ''NoInventoryToRelease'' PassState) (\<lambda>no_inventory.
         then_do (chain_next no_inventory notify_failed) (\<lambda>c4.
         then_do (chain_next c4 order_failed) (\<lambda>c5.
         then_do (chain_next set_inventory_failed c5) (\<lambda>c6.
         then_do (choice_otherwise inventory_succeeded c6) (\<lambda>_.
         then_do (chain_next reserve_inventory inventory_succeeded) (\<lambda>_.
         state_machine reserve_inventory))))))))))))))))))))))))))
        no_constructs)"

text \<open>
  An execution of \<^verbatim>\<open>cloudflow-order-saga\<close> on the input document of an order. There is a
  state machine to start only if the constructor returned; the execution then begins in
  \<^verbatim>\<open>ReserveInventory\<close>. Otherwise starting it fails and the store is as it was.
\<close>

definition run_saga ::
  "'s saga_envs \<Rightarrow> saga_doc \<Rightarrow> 's saga_store \<Rightarrow> saga_end \<times> 's saga_store" where
  "run_saga envs doc st =
     (case SagaStack_init of
        Inl e \<Rightarrow> (StateMachineDoesNotExist, st)
      | Inr g \<Rightarrow> reserve_inventory envs doc st)"

section \<open>Properties of the circuit breaker\<close>

lemma update_item_same:
  "update_item e tbl k upd k = Some (upd (case tbl k of None \<Rightarrow> e | Some it \<Rightarrow> it))"
  by (simp add: update_item_def)

lemma update_item_other: "k' \<noteq> k \<Longrightarrow> update_item e tbl k upd k' = tbl k'"
  by (simp add: update_item_def)

lemma half_open_state:
  assumes "tbl (name cb) = Some it"
  shows "get_state cb (transition_to_half_open cb tbl) =
           it\<lparr>circuit_state := Some HALF_OPEN, success_count := Some 0\<rparr>"
  using assms by (simp add: get_state_def transition_to_half_open_def update_item_same)

text \<open>
  C2. A breaker whose stored item is OPEN with \<open>resets_at\<close> strictly after the clock
  rejects the call with \<^verbatim>\<open>CircuitBreakerOpenError\<close>: the world of the callable and the
  table are returned as they were, whatever the callable is, so it was not invoked. At or
  after \<open>resets_at\<close> the item is first rewritten to HALF_OPEN with \<open>success_count = 0\<close>,
  then the callable runs once on the world (the probe) and its outcome is recorded against
  that HALF_OPEN state.
\<close>

theorem C2_open_rejects_then_probes:
  assumes "tbl (name cb) = Some it" and "circuit_state it = Some OPEN"
    and "resets_at it = Some r"
  shows "(now < real_of_int r \<longrightarrow>
            call cb now now_f fn w tbl =
              (Inl (CircuitBreakerOpenError (name cb) (real_of_int r)), w, tbl))
       \<and> (real_of_int r \<le> now \<longrightarrow>
            (let tbl1 = transition_to_half_open cb tbl; probe = get_state cb tbl1 in
               circuit_state probe = Some HALF_OPEN \<and> success_count probe = Some 0 \<and>
               fst (call cb now now_f fn w tbl) = fst (fn w) \<and>
               fst (snd (call cb now now_f fn w tbl)) = snd (fn w) \<and>
               snd (snd (call cb now now_f fn w tbl)) =
                 (case fst (fn w) of
                    Inr res \<Rightarrow> record_success cb probe tbl1
                  | Inl exc \<Rightarrow> record_failure cb now_f probe tbl1)))"
proof (intro conjI impI)
  assume "now < real_of_int r"
  with assms show "call cb now now_f fn w tbl =
      (Inl (CircuitBreakerOpenError (name cb) (real_of_int r)), w, tbl)"
    by (simp add: call_def get_state_def)
next
  assume late: "real_of_int r \<le> now"
  have st: "get_state cb tbl = it" using assms(1) by (simp add: get_state_def)
  have probe: "get_state cb (transition_to_half_open cb tbl) =
                 it\<lparr>circuit_state := Some HALF_OPEN, success_count := Some 0\<rparr>"
    using assms(1) by (rule half_open_state)
  obtain res w' where fn: "fn w = (res, w')" by (cases "fn w")
  have c: "call cb now now_f fn w tbl =
      (case res of
         Inr v \<Rightarrow> (Inr v, w',
            record_success cb (get_state cb (transition_to_half_open cb tbl))
              (transition_to_half_open cb tbl))
       | Inl exc \<Rightarrow> (Inl exc, w',
            record_failure cb now_f (get_state cb (transition_to_half_open cb tbl))
              (transition_to_half_open cb tbl)))"
    using assms(2,3) late st fn by (simp add: call_def Let_def split: sum.splits)
  show "let tbl1 = transition_to_half_open cb tbl; probe = get_state cb tbl1 in
               circuit_state probe = Some HALF_OPEN \<and> success_count probe = Some 0 \<and>
               fst (call cb now now_f fn w tbl) = fst (fn w) \<and>
               fst (snd (call cb now now_f fn w tbl)) = snd (fn w) \<and>
               snd (snd (call cb now now_f fn w tbl)) =
                 (case fst (fn w) of
                    Inr res \<Rightarrow> record_success cb probe tbl1
                  | Inl exc \<Rightarrow> record_failure cb now_f probe tbl1)"
    unfolding Let_def c fn using probe by (cases res) simp_all
qed

text \<open>The same OPEN item before (clock 100) and at (clock 130) its \<open>resets_at\<close>; the callable
  counts its invocations in the world.\<close>

theorem C2_witness:
  "call \<lparr>name = ''p'', failure_threshold = 5, success_threshold = 2, timeout_seconds = 60\<rparr>
      100 100 (\<lambda>n::nat. (Inr ''ok'' :: exn + string, Suc n)) 0
      [''p'' \<mapsto> \<lparr>circuit_state = Some OPEN, failure_count = Some 5,
                 success_count = Some 0, resets_at = Some 130\<rparr>]
     = (Inl (CircuitBreakerOpenError ''p'' 130), 0,
        [''p'' \<mapsto> \<lparr>circuit_state = Some OPEN, failure_count = Some 5,
                 success_count = Some 0, resets_at = Some 130\<rparr>])
   \<and> fst (snd (call \<lparr>name = ''p'', failure_threshold = 5, success_threshold = 2, timeout_seconds = 60\<rparr>
      130 130 (\<lambda>n::nat. (Inr ''ok'' :: exn + string, Suc n)) 0
      [''p'' \<mapsto> \<lparr>circuit_state = Some OPEN, failure_count = Some 5,
                 success_count = Some 0, resets_at = Some 130\<rparr>])) = 1"
  using C2_open_rejects_then_probes [of
      "[''p'' \<mapsto> \<lparr>circuit_state = Some OPEN, failure_count = Some 5,
                 success_count = Some 0, resets_at = Some 130\<rparr>]"
      "\<lparr>name = ''p'', failure_threshold = 5, success_threshold = 2, timeout_seconds = 60\<rparr>"
      "\<lparr>circuit_state = Some OPEN, failure_count = Some 5,
                 success_count = Some 0, resets_at = Some 130\<rparr>" 130 100 100
      "\<lambda>n::nat. (Inr ''ok'' :: exn + string, Suc n)" 0]
    C2_open_rejects_then_probes [of
      "[''p'' \<mapsto> \<lparr>circuit_state = Some OPEN, failure_count = Some 5,
                 success_count = Some 0, resets_at = Some 130\<rparr>]"
      "\<lparr>name = ''p'', failure_threshold = 5, success_threshold = 2, timeout_seconds = 60\<rparr>"
      "\<lparr>circuit_state = Some OPEN, failure_count = Some 5,
                 success_count = Some 0, resets_at = Some 130\<rparr>" 130 130 130
      "\<lambda>n::nat. (Inr ''ok'' :: exn + string, Suc n)" 0]
  by (simp add: Let_def)

text \<open>
  C7 (as amended). The counters, for a stored item that is the state the call read.
  A failure recorded in CLOSED opens the circuit when \<open>failure_count + 1\<close> is at least
  \<open>failure_threshold\<close> (not only when it is equal): the item becomes OPEN with
  \<open>failure_count + 1\<close>, \<open>success_count = 0\<close> and \<open>resets_at\<close> the whole seconds of
  \<open>now + timeout_seconds\<close>; below the threshold only \<open>failure_count\<close> is incremented. A
  probe success in HALF_OPEN closes the circuit with both counters 0 when
  \<open>success_count + 1\<close> is at least \<open>success_threshold\<close>, and otherwise increments
  \<open>success_count\<close>. A success in CLOSED sets \<open>failure_count\<close> to 0. A probe failure in
  HALF_OPEN re-opens the circuit with a fresh \<open>resets_at\<close> when \<open>failure_count + 1\<close> is at
  least \<open>failure_threshold\<close>.
\<close>

theorem C7_counter_state_machine:
  assumes "tbl (name cb) = Some it"
  shows "(circuit_state it = Some CLOSED \<longrightarrow>
            record_failure cb now it tbl (name cb) =
              Some (if get_failure_count it + 1 \<ge> failure_threshold cb
                    then it\<lparr>circuit_state := Some OPEN,
                            failure_count := Some (get_failure_count it + 1),
                            resets_at := Some (py_int (now + real_of_int (timeout_seconds cb))),
                            success_count := Some 0\<rparr>
                    else it\<lparr>failure_count := Some (get_failure_count it + 1)\<rparr>))
       \<and> (circuit_state it = Some HALF_OPEN \<longrightarrow>
            record_success cb it tbl (name cb) =
              Some (if get_success_count it + 1 \<ge> success_threshold cb
                    then it\<lparr>circuit_state := Some CLOSED, failure_count := Some 0,
                            success_count := Some 0\<rparr>
                    else it\<lparr>success_count := Some (get_success_count it + 1)\<rparr>))
       \<and> (circuit_state it = Some CLOSED \<longrightarrow>
            record_success cb it tbl (name cb) = Some (it\<lparr>failure_count := Some 0\<rparr>))
       \<and> (circuit_state it = Some HALF_OPEN \<and>
            get_failure_count it + 1 \<ge> failure_threshold cb \<longrightarrow>
            record_failure cb now it tbl (name cb) =
              Some (it\<lparr>circuit_state := Some OPEN,
                      failure_count := Some (get_failure_count it + 1),
                      resets_at := Some (py_int (now + real_of_int (timeout_seconds cb))),
                      success_count := Some 0\<rparr>))"
  using assms
  by (simp add: record_failure_def record_success_def get_circuit_state_def Let_def
      update_item_same)

text \<open>
  C7 as stated fails: with threshold 3, a CLOSED item holding \<open>failure_count = 5\<close> is opened
  by the next failure although \<open>5 + 1\<close> is not equal to the threshold; a HALF_OPEN item
  holding \<open>failure_count = 0\<close> stays HALF_OPEN after a probe failure; and opening at clock
  100.5 with a timeout of 30 stores \<open>resets_at = 130\<close>, not 130.5.
\<close>

theorem C7_counterexample:
  "get_failure_count \<lparr>circuit_state = Some CLOSED, failure_count = Some 5,
                       success_count = Some 0, resets_at = None\<rparr> + 1 \<noteq> 3
   \<and> map_option circuit_state
        (record_failure
           \<lparr>name = ''p'', failure_threshold = 3, success_threshold = 2, timeout_seconds = 30\<rparr>
           100
           \<lparr>circuit_state = Some CLOSED, failure_count = Some 5,
              success_count = Some 0, resets_at = None\<rparr>
           [''p'' \<mapsto> \<lparr>circuit_state = Some CLOSED, failure_count = Some 5,
                        success_count = Some 0, resets_at = None\<rparr>] ''p'')
       = Some (Some OPEN)
   \<and> map_option circuit_state
        (record_failure
           \<lparr>name = ''p'', failure_threshold = 3, success_threshold = 2, timeout_seconds = 30\<rparr>
           100
           \<lparr>circuit_state = Some HALF_OPEN, failure_count = Some 0,
              success_count = Some 0, resets_at = Some 90\<rparr>
           [''p'' \<mapsto> \<lparr>circuit_state = Some HALF_OPEN, failure_count = Some 0,
                        success_count = Some 0, resets_at = Some 90\<rparr>] ''p'')
       = Some (Some HALF_OPEN)
   \<and> map_option resets_at
        (record_failure
           \<lparr>name = ''p'', failure_threshold = 3, success_threshold = 2, timeout_seconds = 30\<rparr>
           (1005 / 10)
           \<lparr>circuit_state = Some CLOSED, failure_count = Some 2,
              success_count = Some 0, resets_at = None\<rparr>
           [''p'' \<mapsto> \<lparr>circuit_state = Some CLOSED, failure_count = Some 2,
                        success_count = Some 0, resets_at = None\<rparr>] ''p'')
       = Some (Some 130)
   \<and> real_of_int 130 \<noteq> 1005 / 10 + real_of_int 30"
  by (simp add: record_failure_def get_failure_count_def get_circuit_state_def Let_def
      update_item_same py_int_def)

text \<open>One instance of each transition of C7, threshold 3 and success threshold 2.\<close>

theorem C7_witness:
  "record_failure
      \<lparr>name = ''p'', failure_threshold = 3, success_threshold = 2, timeout_seconds = 30\<rparr>
      100
      \<lparr>circuit_state = Some CLOSED, failure_count = Some 2,
         success_count = Some 0, resets_at = None\<rparr>
      [''p'' \<mapsto> \<lparr>circuit_state = Some CLOSED, failure_count = Some 2,
                   success_count = Some 0, resets_at = None\<rparr>] ''p''
     = Some \<lparr>circuit_state = Some OPEN, failure_count = Some 3,
              success_count = Some 0, resets_at = Some 130\<rparr>
   \<and> record_success
      \<lparr>name = ''p'', failure_threshold = 3, success_threshold = 2, timeout_seconds = 30\<rparr>
      \<lparr>circuit_state = Some CLOSED, failure_count = Some 2,
         success_count = Some 0, resets_at = None\<rparr>
      [''p'' \<mapsto> \<lparr>circuit_state = Some CLOSED, failure_count = Some 2,
                   success_count = Some 0, resets_at = None\<rparr>] ''p''
     = Some \<lparr>circuit_state = Some CLOSED, failure_count = Some 0,
              success_count = Some 0, resets_at = None\<rparr>
   \<and> record_success
      \<lparr>name = ''p'', failure_threshold = 3, success_threshold = 2, timeout_seconds = 30\<rparr>
      \<lparr>circuit_state = Some HALF_OPEN, failure_count = Some 3,
         success_count = Some 1, resets_at = Some 130\<rparr>
      [''p'' \<mapsto> \<lparr>circuit_state = Some HALF_OPEN, failure_count = Some 3,
                   success_count = Some 1, resets_at = Some 130\<rparr>] ''p''
     = Some \<lparr>circuit_state = Some CLOSED, failure_count = Some 0,
              success_count = Some 0, resets_at = Some 130\<rparr>
   \<and> record_failure
      \<lparr>name = ''p'', failure_threshold = 3, success_threshold = 2, timeout_seconds = 30\<rparr>
      200
      \<lparr>circuit_state = Some HALF_OPEN, failure_count = Some 3,
         success_count = Some 1, resets_at = Some 130\<rparr>
      [''p'' \<mapsto> \<lparr>circuit_state = Some HALF_OPEN, failure_count = Some 3,
                   success_count = Some 1, resets_at = Some 130\<rparr>] ''p''
     = Some \<lparr>circuit_state = Some OPEN, failure_count = Some 4,
              success_count = Some 0, resets_at = Some 230\<rparr>"
  using C7_counter_state_machine [of
      "[''p'' \<mapsto> \<lparr>circuit_state = Some CLOSED, failure_count = Some 2,
                   success_count = Some 0, resets_at = None\<rparr>]"
      "\<lparr>name = ''p'', failure_threshold = 3, success_threshold = 2, timeout_seconds = 30\<rparr>"
      "\<lparr>circuit_state = Some CLOSED, failure_count = Some 2,
         success_count = Some 0, resets_at = None\<rparr>" 100]
    C7_counter_state_machine [of
      "[''p'' \<mapsto> \<lparr>circuit_state = Some HALF_OPEN, failure_count = Some 3,
                   success_count = Some 1, resets_at = Some 130\<rparr>]"
      "\<lparr>name = ''p'', failure_threshold = 3, success_threshold = 2, timeout_seconds = 30\<rparr>"
      "\<lparr>circuit_state = Some HALF_OPEN, failure_count = Some 3,
         success_count = Some 1, resets_at = Some 130\<rparr>" 200]
  by (simp add: get_failure_count_def get_success_count_def py_int_def)

text \<open>
  C10. With no stored item the first call reads the default state and invokes the callable,
  but recording its outcome writes an item that holds \<open>failure_count\<close> alone. The second
  call reads that item and fails on \<^verbatim>\<open>state["circuit_state"]\<close> with \<^verbatim>\<open>KeyError\<close> before the
  callable is invoked, so failures are never counted up to the threshold. After
  \<^verbatim>\<open>reset\<close> the same two calls both invoke the callable and count two failures.
\<close>

theorem C10_missing_record_evaluation:
  "(let cb = \<lparr>name = ''external-payment-provider'', failure_threshold = 5,
              success_threshold = 2, timeout_seconds = 60\<rparr>;
        failing = (\<lambda>n::nat. (Inl (ConnectionError ''down'') :: exn + unit, Suc n));
        first = call cb 0 0 failing 0 Map.empty;
        second = call cb 1 1 failing (fst (snd first)) (snd (snd first))
    in fst first = Inl (ConnectionError ''down'') \<and> fst (snd first) = 1
       \<and> snd (snd first) ''external-payment-provider''
           = Some \<lparr>circuit_state = None, failure_count = Some 1,
                    success_count = None, resets_at = None\<rparr>
       \<and> fst second = Inl (KeyError ''circuit_state'') \<and> fst (snd second) = 1
       \<and> snd (snd second) = snd (snd first))
   \<and> (let cb = \<lparr>name = ''external-payment-provider'', failure_threshold = 5,
              success_threshold = 2, timeout_seconds = 60\<rparr>;
        failing = (\<lambda>n::nat. (Inl (ConnectionError ''down'') :: exn + unit, Suc n));
        first = call cb 0 0 failing 0 (reset cb Map.empty);
        second = call cb 1 1 failing (fst (snd first)) (snd (snd first))
    in fst second = Inl (ConnectionError ''down'') \<and> fst (snd second) = 2
       \<and> snd (snd second) ''external-payment-provider''
           = Some \<lparr>circuit_state = Some CLOSED, failure_count = Some 2,
                    success_count = Some 0, resets_at = None\<rparr>)"
  by (simp add: call_def get_state_def record_failure_def get_failure_count_def
      get_circuit_state_def Let_def update_item_def no_attributes_def reset_def)

section \<open>Properties of the idempotency wrapper\<close>

lemma idempotent_fresh:
  assumes "tbl key = None"
  shows "idempotent dumps loads now key fn w tbl =
           (case fn w of
              (Inl exc, w') \<Rightarrow> (Inl exc, w', tbl)
            | (Inr res, w') \<Rightarrow>
                (case dumps res of
                   None \<Rightarrow> (Inl (TypeError ''not JSON serializable''), w',
                             tbl(key \<mapsto> \<lparr>status = Some ''IN_FLIGHT'', result = None,
                                          created_at = Some (py_int now),
                                          ttl = Some (py_int now + IDEMPOTENCY_TTL_SECONDS)\<rparr>))
                 | Some s \<Rightarrow> (Inr res, w',
                             tbl(key \<mapsto> \<lparr>status = Some ''COMPLETE'', result = Some s,
                                          created_at = Some (py_int now),
                                          ttl = Some (py_int now + IDEMPOTENCY_TTL_SECONDS)\<rparr>))))"
proof -
  have del: "(tbl(key \<mapsto> x))(key := None) = tbl" for x
    using assms by (auto simp: fun_eq_iff)
  show ?thesis
    using assms
    by (auto simp: idempotent_def put_item_if_not_exists_def delete_item_def del
        update_item_def Let_def split: prod.splits sum.splits option.splits)
qed

lemma idempotent_existing:
  assumes "tbl key = Some it"
  shows "idempotent dumps loads now key fn w tbl =
           (if status it = Some ''COMPLETE'' then
              (case result it of
                 None \<Rightarrow> (Inl (KeyError ''result''), w, tbl)
               | Some s \<Rightarrow>
                   (case loads s of
                      None \<Rightarrow> (Inl JSONDecodeError, w, tbl)
                    | Some r \<Rightarrow> (Inr r, w, tbl)))
            else if status it = Some ''IN_FLIGHT'' then
              (Inl (IdempotencyAlreadyInProgressError key), w, tbl)
            else (Inl (IdempotencyError (status it)), w, tbl(key := None)))"
  using assms
  by (simp add: idempotent_def put_item_if_not_exists_def delete_item_def Let_def)

text \<open>
  C8. When a record already exists for the key, the wrapped function is not run (the world
  comes back unchanged, whatever the function is): a COMPLETE record with a readable result
  gives that result, an IN\_FLIGHT record gives \<^verbatim>\<open>IdempotencyAlreadyInProgressError\<close>, any
  other status (or none) deletes the record and gives \<^verbatim>\<open>IdempotencyError\<close>. When there is
  no record and the function raises, the exception is passed on and the table is again
  without a record for the key, so that a retry with the same key runs its function.
\<close>

theorem C8_claim_failure_and_cleanup:
  "(tbl key = Some it \<and> status it = Some ''COMPLETE'' \<and> result it = Some s
      \<and> loads s = Some r \<longrightarrow>
      idempotent dumps loads now key fn w tbl = (Inr r, w, tbl))
 \<and> (tbl key = Some it \<and> status it = Some ''IN_FLIGHT'' \<longrightarrow>
      idempotent dumps loads now key fn w tbl =
        (Inl (IdempotencyAlreadyInProgressError key), w, tbl))
 \<and> (tbl key = Some it \<and> status it \<noteq> Some ''COMPLETE'' \<and> status it \<noteq> Some ''IN_FLIGHT'' \<longrightarrow>
      idempotent dumps loads now key fn w tbl =
        (Inl (IdempotencyError (status it)), w, tbl(key := None)))
 \<and> (tbl key = None \<and> fn w = (Inl exc, w') \<longrightarrow>
      idempotent dumps loads now key fn w tbl = (Inl exc, w', tbl)
      \<and> fst (snd (idempotent dumps loads now' key fn' w' tbl)) = snd (fn' w'))"
proof (intro conjI impI)
  assume "tbl key = None \<and> fn w = (Inl exc, w')"
  then show "idempotent dumps loads now key fn w tbl = (Inl exc, w', tbl)"
    by (simp add: idempotent_fresh)
next
  assume "tbl key = None \<and> fn w = (Inl exc, w')"
  then show "fst (snd (idempotent dumps loads now' key fn' w' tbl)) = snd (fn' w')"
    by (simp add: idempotent_fresh split: prod.splits sum.splits option.splits)
qed (simp_all add: idempotent_existing)

text \<open>The four cases of C8 on a one-record table, and the retry after the failure.\<close>

theorem C8_witness:
  "idempotent Some Some 50 ''k'' (\<lambda>n::nat. (Inr ''fresh'', Suc n)) 0
      [''k'' \<mapsto> \<lparr>status = Some ''COMPLETE'', result = Some ''cached'',
                   created_at = Some 10, ttl = Some 86410\<rparr>]
     = (Inr ''cached'', 0,
        [''k'' \<mapsto> \<lparr>status = Some ''COMPLETE'', result = Some ''cached'',
                   created_at = Some 10, ttl = Some 86410\<rparr>])
   \<and> idempotent Some Some 50 ''k'' (\<lambda>n::nat. (Inr ''fresh'', Suc n)) 0
      [''k'' \<mapsto> \<lparr>status = Some ''IN_FLIGHT'', result = None,
                   created_at = Some 10, ttl = Some 86410\<rparr>]
     = (Inl (IdempotencyAlreadyInProgressError ''k''), 0,
        [''k'' \<mapsto> \<lparr>status = Some ''IN_FLIGHT'', result = None,
                   created_at = Some 10, ttl = Some 86410\<rparr>])
   \<and> idempotent Some Some 50 ''k'' (\<lambda>n::nat. (Inr ''fresh'', Suc n)) 0
      [''k'' \<mapsto> \<lparr>status = Some ''STALE'', result = None,
                   created_at = Some 10, ttl = Some 86410\<rparr>]
     = (Inl (IdempotencyError (Some ''STALE'')), 0, Map.empty)
   \<and> idempotent Some Some 50 ''k''
        (\<lambda>n::nat. (Inl (ConnectionError ''down'') :: exn + string, Suc n)) 0 Map.empty
     = (Inl (ConnectionError ''down''), 1, Map.empty)
   \<and> fst (snd (idempotent Some Some 51 ''k'' (\<lambda>n::nat. (Inr ''fresh'', Suc n)) 1 Map.empty))
     = 2"
  using C8_claim_failure_and_cleanup [of
      "[''k'' \<mapsto> \<lparr>status = Some ''COMPLETE'', result = Some ''cached'',
                   created_at = Some 10, ttl = Some 86410\<rparr>]" "''k''"
      "\<lparr>status = Some ''COMPLETE'', result = Some ''cached'',
                   created_at = Some 10, ttl = Some 86410\<rparr>" "''cached''" Some "''cached''"
      Some 50 "\<lambda>n::nat. (Inr ''fresh'', Suc n)" 0]
    C8_claim_failure_and_cleanup [of
      "[''k'' \<mapsto> \<lparr>status = Some ''IN_FLIGHT'', result = None,
                   created_at = Some 10, ttl = Some 86410\<rparr>]" "''k''"
      "\<lparr>status = Some ''IN_FLIGHT'', result = None,
                   created_at = Some 10, ttl = Some 86410\<rparr>" "''cached''" Some "''cached''"
      Some 50 "\<lambda>n::nat. (Inr ''fresh'', Suc n)" 0]
    C8_claim_failure_and_cleanup [of
      "[''k'' \<mapsto> \<lparr>status = Some ''STALE'', result = None,
                   created_at = Some 10, ttl = Some 86410\<rparr>]" "''k''"
      "\<lparr>status = Some ''STALE'', result = None,
                   created_at = Some 10, ttl = Some 86410\<rparr>" "''cached''" Some "''cached''"
      Some 50 "\<lambda>n::nat. (Inr ''fresh'', Suc n)" 0]
    C8_claim_failure_and_cleanup [where tbl = Map.empty and key = "''k''"
      and dumps = Some and loads = Some and now = 50 and now' = 51 and w = 0
      and w' = 1 and exc = "ConnectionError ''down''"
      and fn = "\<lambda>n::nat. (Inl (ConnectionError ''down'') :: exn + string, Suc n)"
      and fn' = "\<lambda>n::nat. (Inr ''fresh'', Suc n)"]
  by simp

text \<open>
  C1 (as amended). Once a call with key \<open>key\<close> has returned a result \<open>r\<close>, it has run its
  function at most once (exactly once when it made the claim, not at all when it was served
  from the record), and every later call with that key on the table it left runs no
  function and changes no record: it returns what \<^verbatim>\<open>json.loads\<close> reads from the stored
  text, which is \<^verbatim>\<open>json.dumps r\<close> when the first call made the claim. The two results are
  equal whenever \<open>r\<close> survives the round trip through the serialiser.
\<close>

theorem C1_cached_result_wins:
  assumes "idempotent dumps loads now key fn w tbl = (Inr r, w1, tbl1)"
  shows "w1 = (if tbl key = None then snd (fn w) else w)
       \<and> fst (snd (idempotent dumps loads now' key fn' w' tbl1)) = w'
       \<and> snd (snd (idempotent dumps loads now' key fn' w' tbl1)) = tbl1
       \<and> (\<exists>s. map_option result (tbl1 key) = Some (Some s)
              \<and> (tbl key = None \<longrightarrow> dumps r = Some s)
              \<and> fst (idempotent dumps loads now' key fn' w' tbl1) =
                  (case loads s of None \<Rightarrow> Inl JSONDecodeError | Some r' \<Rightarrow> Inr r'))
       \<and> ((\<forall>s. dumps r = Some s \<longrightarrow> loads s = Some r) \<longrightarrow>
             idempotent dumps loads now' key fn' w' tbl1 = (Inr r, w', tbl1))"
proof (cases "tbl key")
  case None
  obtain res w2 where fn: "fn w = (res, w2)" by (cases "fn w")
  from assms None fn obtain s where
    s: "res = Inr r" "w1 = w2" "dumps r = Some s"
       "tbl1 = tbl(key \<mapsto> \<lparr>status = Some ''COMPLETE'', result = Some s,
                          created_at = Some (py_int now),
                          ttl = Some (py_int now + IDEMPOTENCY_TTL_SECONDS)\<rparr>)"
    by (auto simp: idempotent_fresh split: sum.splits option.splits)
  have k: "tbl1 key = Some \<lparr>status = Some ''COMPLETE'', result = Some s,
                          created_at = Some (py_int now),
                          ttl = Some (py_int now + IDEMPOTENCY_TTL_SECONDS)\<rparr>"
    using s(4) by simp
  have second: "idempotent dumps loads now' key fn' w' tbl1 =
      (case loads s of None \<Rightarrow> (Inl JSONDecodeError, w', tbl1)
                          | Some r' \<Rightarrow> (Inr r', w', tbl1))"
    by (simp add: idempotent_existing [where tbl = tbl1 and key = key, OF k])
  show ?thesis
    using None fn s(2,3) k second by (auto split: option.splits)
next
  case (Some it)
  from assms Some obtain s where
    s: "status it = Some ''COMPLETE''" "result it = Some s" "loads s = Some r"
       "w1 = w" "tbl1 = tbl"
    by (auto simp: idempotent_existing split: if_splits option.splits)
  have second: "idempotent dumps loads now' key fn' w' tbl1 = (Inr r, w', tbl1)"
    using Some s by (simp add: idempotent_existing)
  show ?thesis
    using Some s second by auto
qed

text \<open>A first call on an empty table, then a second call with the same key and another
  function: the second returns the first result and the invocation count stays 1.\<close>

theorem C1_witness:
  "idempotent Some Some 0 ''k'' (\<lambda>n::nat. (Inr ''first'', Suc n)) 0 Map.empty
     = (Inr ''first'', 1,
        [''k'' \<mapsto> \<lparr>status = Some ''COMPLETE'', result = Some ''first'',
                   created_at = Some 0, ttl = Some 86400\<rparr>])
   \<and> idempotent Some Some 1 ''k'' (\<lambda>n::nat. (Inr ''second'', Suc n)) 1
      [''k'' \<mapsto> \<lparr>status = Some ''COMPLETE'', result = Some ''first'',
                   created_at = Some 0, ttl = Some 86400\<rparr>]
     = (Inr ''first'', 1,
        [''k'' \<mapsto> \<lparr>status = Some ''COMPLETE'', result = Some ''first'',
                   created_at = Some 0, ttl = Some 86400\<rparr>])"
proof -
  have first: "idempotent Some Some 0 ''k'' (\<lambda>n::nat. (Inr ''first'', Suc n)) 0 Map.empty
      = (Inr ''first'', 1,
         [''k'' \<mapsto> \<lparr>status = Some ''COMPLETE'', result = Some ''first'',
                   created_at = Some 0, ttl = Some 86400\<rparr>])"
    by (simp add: idempotent_def put_item_if_not_exists_def update_item_def Let_def
        py_int_def IDEMPOTENCY_TTL_SECONDS_def)
  show ?thesis
    using first C1_cached_result_wins [OF first, of 1 "\<lambda>n::nat. (Inr ''second'', Suc n)" 1]
    by simp
qed

text \<open>
  C1 as stated fails twice. A function that raises on its first execution is executed
  again by the second call with the same key: two executions (the world counts them). And
  with a serialiser that, as JSON does for tuples and lists, maps two values to one text,
  the first call returns the value and the second the other reading of its text.
\<close>

theorem C1_counterexample:
  "(let flaky = (\<lambda>n::nat. (if n = 0 then Inl (ConnectionError ''transient'')
                            else Inr ''done'', Suc n));
        first = idempotent Some Some 0 ''k'' flaky 0 Map.empty;
        second = idempotent Some Some 1 ''k'' flaky (fst (snd first)) (snd (snd first))
    in fst first = Inl (ConnectionError ''transient'') \<and> fst (snd first) = 1
       \<and> fst second = Inr ''done'' \<and> fst (snd second) = 2)
 \<and> (let dumps = (\<lambda>r::int list + int list. Some (case r of Inl xs \<Rightarrow> xs | Inr xs \<Rightarrow> xs));
        loads = (\<lambda>s::int list. Some (Inr s :: int list + int list));
        f = (\<lambda>n::nat. (Inr (Inl [1, 2]) :: exn + (int list + int list), Suc n));
        first = idempotent dumps loads 0 ''k'' f 0 Map.empty;
        second = idempotent dumps loads 1 ''k'' f (fst (snd first)) (snd (snd first))
    in fst first = Inr (Inl [1, 2]) \<and> fst second = Inr (Inr [1, 2])
       \<and> fst first \<noteq> fst second \<and> fst (snd second) = 1)"
  by (simp add: idempotent_def put_item_if_not_exists_def update_item_def delete_item_def
      Let_def)

section \<open>Properties of the inventory service\<close>

lemma decrement_stock_cases:
  "decrement_stock pid n oid ts tbl =
     (case tbl pid of
        None \<Rightarrow> (Inl (InsufficientStockError pid n), tbl)
      | Some it \<Rightarrow>
          (case inv_quantity it of
             None \<Rightarrow> (Inl (InsufficientStockError pid n), tbl)
           | Some q \<Rightarrow>
               if q \<ge> n
               then (Inr (), tbl(pid \<mapsto> it\<lparr>inv_quantity := Some (q - n),
                                           inv_updated_at := Some ts\<rparr>))
               else (Inl (InsufficientStockError pid n), tbl)))"
  by (simp add: decrement_stock_def update_item_if_def update_item_def
      no_inventory_attributes_def split: option.splits)

lemma decrement_stock_ok:
  assumes "stock_ok tbl p"
  shows "stock_ok (snd (decrement_stock pid n oid ts tbl)) p"
  using assms
  by (auto simp: decrement_stock_cases stock_ok_def split: option.splits)

lemma decrement_each_ok:
  "stock_ok tbl p \<Longrightarrow> stock_ok (snd (decrement_each its oid ts tbl)) p"
proof (induction its arbitrary: tbl)
  case Nil
  then show ?case by simp
next
  case (Cons item rest)
  have step: "stock_ok (snd (decrement_stock (product_id item) (quantity item) oid ts tbl)) p"
    using Cons.prems by (rule decrement_stock_ok)
  show ?case
  proof (cases "decrement_stock (product_id item) (quantity item) oid ts tbl")
    case (Pair r tbl')
    with step have ok: "stock_ok tbl' p" by simp
    show ?thesis
    proof (cases r)
      case (Inl e)
      with Pair ok show ?thesis by simp
    next
      case (Inr u)
      with Pair Cons.IH [OF ok] show ?thesis by simp
    qed
  qed
qed

lemma OrderItem_list_valid:
  "OrderItem_list raw = Inr its \<Longrightarrow> its = raw \<and> (\<forall>i \<in> set its. 0 < quantity i)"
proof (induction raw arbitrary: its)
  case Nil
  then show ?case by simp
next
  case (Cons i rest)
  then show ?case
    by (auto simp: OrderItem_init_def split: if_splits sum.splits)
qed

lemma add_back_grows:
  assumes "\<forall>i \<in> set its. 0 < quantity i"
    and "tbl p = Some it" and "inv_quantity it = Some q"
  shows "\<exists>it' q'. add_back its tbl p = Some it' \<and> inv_quantity it' = Some q' \<and> q \<le> q'"
  using assms
proof (induction its arbitrary: tbl it q)
  case Nil
  then show ?case by simp
next
  case (Cons item rest)
  let ?tbl' = "update_item no_inventory_attributes tbl (product_id item)
          (\<lambda>it. it\<lparr>inv_quantity :=
                      Some ((case inv_quantity it of None \<Rightarrow> 0 | Some q \<Rightarrow> q)
                            + quantity item)\<rparr>)"
  have pos: "0 < quantity item" and rest: "\<forall>i \<in> set rest. 0 < quantity i"
    using Cons.prems(1) by simp_all
  obtain it1 q1 where s: "?tbl' p = Some it1" "inv_quantity it1 = Some q1" "q \<le> q1"
    using Cons.prems(2,3) pos by (cases "product_id item = p") (auto simp: update_item_def)
  from Cons.IH [of ?tbl' it1 q1] rest s(1,2) obtain it' q' where
    "add_back rest ?tbl' p = Some it'" "inv_quantity it' = Some q'" "q1 \<le> q'" by blast
  with s(3) show ?case by auto
qed

lemma add_back_ok:
  assumes "\<forall>i \<in> set its. 0 < quantity i" and "stock_ok tbl p"
  shows "stock_ok (add_back its tbl) p"
proof -
  from assms(2) obtain it q where a: "tbl p = Some it" "inv_quantity it = Some q" "0 \<le> q"
    by (auto simp: stock_ok_def split: option.splits)
  from add_back_grows [of its tbl p it q] assms(1) a show ?thesis
    by (auto simp: stock_ok_def)
qed

lemma idempotent_world:
  "fst (snd (idempotent dumps loads now key fn w tbl)) = w
   \<or> fst (snd (idempotent dumps loads now key fn w tbl)) = snd (fn w)"
  by (auto simp: idempotent_def Let_def put_item_if_not_exists_def
      split: sum.splits option.splits prod.splits)

lemma do_reserve_ok:
  "stock_ok (inventory w) p \<Longrightarrow> stock_ok (inventory (snd (do_reserve env oid its w))) p"
  using decrement_each_ok [of "inventory w" p its oid "utc_now env"]
  by (auto simp: do_reserve_def split: prod.splits sum.splits)

lemma do_release_ok:
  "stock_ok (inventory w) p \<Longrightarrow> stock_ok (inventory (snd (do_release rid oid w))) p"
  by (auto simp: do_release_def add_back_ok dest!: OrderItem_list_valid
      split: option.splits sum.splits)

lemma reserve_ok:
  assumes "stock_ok (inventory w) p"
  shows "stock_ok (inventory (fst (snd (reserve env ev w idem)))) p"
proof (cases "\<exists>oid raw its. order_id ev = Some oid \<and> items ev = Some raw
                \<and> OrderItem_list raw = Inr its")
  case True
  then obtain oid raw its where e: "order_id ev = Some oid" "items ev = Some raw"
      "OrderItem_list raw = Inr its" by blast
  have r: "reserve env ev w idem =
      idempotent (json_dumps env) (json_loads env) (clock env)
                      (''reserve-'' @ oid) (do_reserve env oid its) w idem"
    using e by (simp add: reserve_def)
  show ?thesis
    unfolding r
    using idempotent_world [of "json_dumps env" "json_loads env" "clock env"
        "''reserve-'' @ oid" "do_reserve env oid its" w idem]
      assms do_reserve_ok [OF assms, of env oid its]
    by auto
next
  case False
  then have "fst (snd (reserve env ev w idem)) = w"
    by (auto simp: reserve_def split: option.splits sum.splits)
  with assms show ?thesis by simp
qed

lemma release_ok:
  assumes "stock_ok (inventory w) p"
  shows "stock_ok (inventory (fst (snd (release env ev w idem)))) p"
proof (cases "\<exists>rid oid. reservation_id ev = Some rid \<and> order_id ev = Some oid")
  case True
  then obtain rid oid where e: "reservation_id ev = Some rid" "order_id ev = Some oid"
    by blast
  have r: "release env ev w idem =
      idempotent (json_dumps env) (json_loads env) (clock env)
                      (''release-'' @ rid) (do_release rid oid) w idem"
    using e by (simp add: release_def)
  show ?thesis
    unfolding r
    using idempotent_world [of "json_dumps env" "json_loads env" "clock env"
        "''release-'' @ rid" "do_release rid oid" w idem]
      assms do_release_ok [OF assms, of rid oid]
    by auto
next
  case False
  then have "fst (snd (release env ev w idem)) = w"
    by (auto simp: release_def split: option.splits)
  with assms show ?thesis by simp
qed

lemma inventory_handler_world:
  "fst (snd (inventory_handler env ev w idem)) =
     (if action ev = Some ''reserve'' then fst (snd (reserve env ev w idem))
      else if action ev = Some ''release'' then fst (snd (release env ev w idem))
      else w)"
  by (auto simp: inventory_handler_def split: prod.splits sum.splits exn.splits)

lemmas eval_defs =
  inventory_handler_def reserve_def release_def do_reserve_def do_release_def
  decrement_stock_cases idempotent_def put_item_if_not_exists_def delete_item_def
  update_item_def OrderItem_init_def sample_env_def seeded_def reserve_event_def
  release_event_def Let_def insufficient_stock_message_def str_int_def str_nat.simps
  no_inventory_attributes_def no_reservation_attributes_def no_record_attributes_def

text \<open>
  C4. Stock A = 5 and B = 0, and a Reserve of 2 of A and 1 of B. The decrement of A is
  applied, the decrement of B fails, and the handler returns INSUFFICIENT\_STOCK with A left
  at 3: the quantity already taken is not added back. No reservation is written and the
  idempotency record is removed.
\<close>

theorem C4_partial_reserve_evaluation:
  "(let w = \<lparr>inventory = [''A'' \<mapsto> seeded 5, ''B'' \<mapsto> seeded 0], reservations = Map.empty\<rparr>;
        ev = reserve_event ''o1''
               [\<lparr>product_id = ''A'', quantity = 2, unit_price_cents = 500\<rparr>,
                \<lparr>product_id = ''B'', quantity = 1, unit_price_cents = 500\<rparr>];
        out = inventory_handler sample_env ev w Map.empty
    in fst out = Inr [(''success'', JBool False), (''error'', JStr ''INSUFFICIENT_STOCK''),
                      (''message'', JStr (''Product '' @ [CHR 0x27] @ ''B'' @ [CHR 0x27]
                                          @ '': requested 1, insufficient stock''))]
       \<and> map_option inv_quantity (inventory (fst (snd out)) ''A'') = Some (Some 3)
       \<and> map_option inv_quantity (inventory (fst (snd out)) ''B'') = Some (Some 0)
       \<and> reservations (fst (snd out)) = Map.empty
       \<and> snd (snd out) = Map.empty)"
  by (simp add: eval_defs)

lemma do_release_raises:
  "do_release rid oid w = (Inl e, w') \<Longrightarrow> w' = w"
  by (auto simp: do_release_def split: option.splits sum.splits)

lemma idempotent_twice_world:
  assumes wf: "\<And>it. tbl key = Some it \<Longrightarrow>
                 status it = Some ''COMPLETE'' \<or> status it = Some ''IN_FLIGHT''"
    and quiet: "\<And>e w'. fn w = (Inl e, w') \<Longrightarrow> w' = w"
  shows "fst (snd (idempotent dumps' loads' now' key fn
                     (fst (snd (idempotent dumps loads now key fn w tbl)))
                     (snd (snd (idempotent dumps loads now key fn w tbl)))))
         = fst (snd (idempotent dumps loads now key fn w tbl))"
proof (cases "tbl key")
  case None
  obtain res w1 where fn: "fn w = (res, w1)" by (cases "fn w")
  show ?thesis
  proof (cases res)
    case (Inl e)
    with fn quiet have "w1 = w" by simp
    with None fn Inl show ?thesis
      by (simp add: idempotent_fresh)
  next
    case (Inr r)
    show ?thesis
    proof (cases "dumps r")
      case None': None
      have first: "idempotent dumps loads now key fn w tbl =
          (Inl (TypeError ''not JSON serializable''), w1,
           tbl(key \<mapsto> \<lparr>status = Some ''IN_FLIGHT'', result = None,
                        created_at = Some (py_int now),
                        ttl = Some (py_int now + IDEMPOTENCY_TTL_SECONDS)\<rparr>))"
        using None fn Inr None' by (simp add: idempotent_fresh)
      show ?thesis
        unfolding first by (simp add: idempotent_def put_item_if_not_exists_def Let_def)
    next
      case (Some s)
      have first: "idempotent dumps loads now key fn w tbl =
          (Inr r, w1,
           tbl(key \<mapsto> \<lparr>status = Some ''COMPLETE'', result = Some s,
                        created_at = Some (py_int now),
                        ttl = Some (py_int now + IDEMPOTENCY_TTL_SECONDS)\<rparr>))"
        using None fn Inr Some by (simp add: idempotent_fresh)
      show ?thesis
        unfolding first
        by (simp add: idempotent_def put_item_if_not_exists_def Let_def
            split: option.splits)
    qed
  qed
next
  case (Some it)
  from wf [OF Some] have st: "status it = Some ''COMPLETE'' \<or> status it = Some ''IN_FLIGHT''" .
  have first: "fst (snd (idempotent dumps loads now key fn w tbl)) = w"
              "snd (snd (idempotent dumps loads now key fn w tbl)) = tbl"
    using Some st by (auto simp: idempotent_existing split: option.splits)
  show ?thesis
    unfolding first using Some st by (auto simp: idempotent_existing split: option.splits)
qed

text \<open>
  What protects a Release from being applied twice is the idempotency record alone. A
  Release whose reservation record is absent leaves every inventory quantity as it was. A
  Release whose idempotency record is COMPLETE returns the cached result and changes
  nothing. When the idempotency record for the key is absent, IN\_FLIGHT or COMPLETE, a
  second Release on the state the first one left has no further effect on the inventory.
\<close>

lemma release_twice_same_inventory:
  "(reservation_id ev = Some rid \<and> reservations w rid = None \<longrightarrow>
      inventory (fst (snd (release env ev w idem))) = inventory w
      \<and> (order_id ev \<noteq> None \<and> idem (''release-'' @ rid) = None
           \<and> json_dumps env [(''success'', JBool True),
                              (''message'', JStr ''Nothing to release'')] \<noteq> None \<longrightarrow>
           fst (release env ev w idem) =
             Inr [(''success'', JBool True), (''message'', JStr ''Nothing to release'')]))
 \<and> (reservation_id ev = Some rid \<and> order_id ev \<noteq> None
      \<and> idem (''release-'' @ rid) = Some it \<and> status it = Some ''COMPLETE''
      \<and> result it = Some s \<and> json_loads env s = Some r \<longrightarrow>
      release env ev w idem = (Inr r, w, idem))
 \<and> ((\<forall>k it'. reservation_id ev = Some k \<and> idem (''release-'' @ k) = Some it' \<longrightarrow>
         status it' = Some ''COMPLETE'' \<or> status it' = Some ''IN_FLIGHT'') \<longrightarrow>
      inventory (fst (snd (release env' ev (fst (snd (release env ev w idem)))
                                           (snd (snd (release env ev w idem))))))
        = inventory (fst (snd (release env ev w idem))))"
proof (intro conjI impI)
  assume a: "reservation_id ev = Some rid \<and> reservations w rid = None"
  then have quiet: "snd (do_release rid oid w) = w" for oid
    by (simp add: do_release_def)
  show "inventory (fst (snd (release env ev w idem))) = inventory w"
  proof (cases "order_id ev")
    case None
    with a show ?thesis by (simp add: release_def)
  next
    case (Some oid)
    with a have r: "release env ev w idem =
        idempotent (json_dumps env) (json_loads env) (clock env)
                 (''release-'' @ rid) (do_release rid oid) w idem"
      by (simp add: release_def)
    show ?thesis
      unfolding r
      using idempotent_world [of "json_dumps env" "json_loads env" "clock env"
          "''release-'' @ rid" "do_release rid oid" w idem] quiet [of oid]
      by auto
  qed
next
  assume a: "reservation_id ev = Some rid \<and> reservations w rid = None"
    and b: "order_id ev \<noteq> None \<and> idem (''release-'' @ rid) = None
           \<and> json_dumps env [(''success'', JBool True),
                              (''message'', JStr ''Nothing to release'')] \<noteq> None"
  then show "fst (release env ev w idem) =
             Inr [(''success'', JBool True), (''message'', JStr ''Nothing to release'')]"
    by (auto simp: release_def idempotent_fresh do_release_def)
next
  assume "reservation_id ev = Some rid \<and> order_id ev \<noteq> None
      \<and> idem (''release-'' @ rid) = Some it \<and> status it = Some ''COMPLETE''
      \<and> result it = Some s \<and> json_loads env s = Some r"
  then show "release env ev w idem = (Inr r, w, idem)"
    by (auto simp: release_def idempotent_existing)
next
  assume wf: "\<forall>k it'. reservation_id ev = Some k \<and> idem (''release-'' @ k) = Some it' \<longrightarrow>
         status it' = Some ''COMPLETE'' \<or> status it' = Some ''IN_FLIGHT''"
  show "inventory (fst (snd (release env' ev (fst (snd (release env ev w idem)))
                                           (snd (snd (release env ev w idem))))))
        = inventory (fst (snd (release env ev w idem)))"
  proof (cases "\<exists>rid oid. reservation_id ev = Some rid \<and> order_id ev = Some oid")
    case True
    then obtain k oid where e: "reservation_id ev = Some k" "order_id ev = Some oid"
      by blast
    have r: "release en ev w0 t0 =
        idempotent (json_dumps en) (json_loads en) (clock en)
                 (''release-'' @ k) (do_release k oid) w0 t0" for en w0 t0
      using e by (simp add: release_def)
    have "fst (snd (release env' ev (fst (snd (release env ev w idem)))
                                           (snd (snd (release env ev w idem)))))
        = fst (snd (release env ev w idem))"
      unfolding r
      by (rule idempotent_twice_world) (use wf e do_release_raises in blast)+
    then show ?thesis by simp
  next
    case False
    then have k: "release en ev w0 t0 =
        (Inl (KeyError (if reservation_id ev = None then ''reservation_id''
                        else ''order_id'')), w0, t0)" for en w0 t0
      by (auto simp: release_def split: option.splits)
    show ?thesis by (simp add: k)
  qed
qed

text \<open>
  C6. A stock of 10 of product A: Reserve takes 3 (stock 7), Release gives them back (stock
  10) and marks the reservation RELEASED. After the idempotency records have passed their
  \<^verbatim>\<open>ttl\<close> and the store has deleted them, the same Release is applied again: it returns
  success and the stock is 13. \<^verbatim>\<open>_do_release\<close> tests only whether the reservation exists,
  never its \<^verbatim>\<open>status\<close>.
\<close>

theorem C6_release_of_released_evaluation:
  "(let w0 = \<lparr>inventory = [''A'' \<mapsto> seeded 10], reservations = Map.empty\<rparr>;
        reserved = inventory_handler sample_env
                     (reserve_event ''o1''
                        [\<lparr>product_id = ''A'', quantity = 3, unit_price_cents = 500\<rparr>])
                     w0 Map.empty;
        released = inventory_handler (sample_env\<lparr>clock := 1060\<rparr>)
                     (release_event ''o1'' ''res-1'')
                     (fst (snd reserved)) (snd (snd reserved));
        again = inventory_handler (sample_env\<lparr>clock := 90000\<rparr>)
                  (release_event ''o1'' ''res-1'')
                  (fst (snd released)) (ttl_sweep 90000 (snd (snd released)))
    in fst reserved = Inr [(''success'', JBool True), (''reservation_id'', JStr ''res-1'')]
       \<and> map_option inv_quantity (inventory (fst (snd reserved)) ''A'') = Some (Some 7)
       \<and> fst released = Inr [(''success'', JBool True)]
       \<and> map_option inv_quantity (inventory (fst (snd released)) ''A'') = Some (Some 10)
       \<and> map_option rsv_status (reservations (fst (snd released)) ''res-1'')
           = Some (Some ''RELEASED'')
       \<and> map_option ttl (snd (snd released) ''release-res-1'') = Some (Some 87460)
       \<and> ttl_sweep 90000 (snd (snd released)) ''release-res-1'' = None
       \<and> fst again = Inr [(''success'', JBool True)]
       \<and> map_option inv_quantity (inventory (fst (snd again)) ''A'') = Some (Some 13))"
  by (simp add: eval_defs ttl_sweep_def py_int_def IDEMPOTENCY_TTL_SECONDS_def)

section \<open>Properties of the order repository\<close>

lemma get_order_append_event:
  "get_order oid (append_event clk stamp oid' st md tbl) = get_order oid tbl"
  by (simp add: get_order_def append_event_def)

lemma get_order_update_status:
  "get_order oid (update_status clk stamp oid st md tbl) =
     Some ((case get_order oid tbl of None \<Rightarrow> no_order_attributes | Some it \<Rightarrow> it)
             \<lparr>ord_status := Some st, ord_updated_at := Some stamp,
              ord_version :=
                Some ((case ord_version (case get_order oid tbl of
                                           None \<Rightarrow> no_order_attributes | Some it \<Rightarrow> it) of
                         None \<Rightarrow> 0 | Some v \<Rightarrow> v) + 1)\<rparr>)"
  unfolding update_status_def get_order_append_event
  by (simp add: get_order_def update_item_def)

lemma optimistic_lock_existing:
  assumes "ord_version item = Some v" and "v \<noteq> 0"
  shows "put_item_with_optimistic_lock tbl key item =
        (if \<exists>stored. tbl key = Some stored \<and> ord_version stored = Some v
         then Inr (tbl(key \<mapsto> item\<lparr>ord_version := Some (v + 1)\<rparr>))
         else Inl (OptimisticLockError v))"
  using assms
  by (auto simp: put_item_with_optimistic_lock_def put_item_if_def no_order_attributes_def
      Let_def split: option.splits)

lemma optimistic_lock_new:
  assumes "ord_version item = Some 0"
  shows "put_item_with_optimistic_lock tbl key item =
        (if tbl key = None
         then Inr (tbl(key \<mapsto> item\<lparr>ord_version := Some 1\<rparr>))
         else Inl (OptimisticLockError 0))"
  using assms
  by (auto simp: put_item_with_optimistic_lock_def put_item_if_not_exists_def Let_def
      split: option.splits)

text \<open>
  C9 (as amended). \<^verbatim>\<open>update_status\<close> is not conditioned on any version: whatever the stored
  order is, it sets the status and the update time and adds 1 to the stored version, and it
  cannot fail with a version conflict. The conditional write is
  \<^verbatim>\<open>put_item_with_optimistic_lock\<close>, which the repository uses to create an order: an item
  carrying a version \<open>v\<close> other than 0 is written, with version \<open>v + 1\<close>, exactly when the
  stored item has version \<open>v\<close>, and an item carrying version 0 exactly when no item is
  stored; otherwise the write fails with \<^verbatim>\<open>OptimisticLockError\<close>.
\<close>

theorem C9_status_write_unconditional:
  "(get_order oid tbl = Some it \<longrightarrow>
      get_order oid (update_status clk stamp oid st md tbl) =
        Some (it\<lparr>ord_status := Some st, ord_updated_at := Some stamp,
                 ord_version := Some ((case ord_version it of None \<Rightarrow> 0 | Some v \<Rightarrow> v) + 1)\<rparr>))
 \<and> (ord_version item = Some v \<and> v \<noteq> 0 \<longrightarrow>
      put_item_with_optimistic_lock tbl key item =
        (if \<exists>stored. tbl key = Some stored \<and> ord_version stored = Some v
         then Inr (tbl(key \<mapsto> item\<lparr>ord_version := Some (v + 1)\<rparr>))
         else Inl (OptimisticLockError v)))
 \<and> (ord_version item = Some 0 \<longrightarrow>
      put_item_with_optimistic_lock tbl key item =
        (if tbl key = None
         then Inr (tbl(key \<mapsto> item\<lparr>ord_version := Some 1\<rparr>))
         else Inl (OptimisticLockError 0)))"
  by (simp add: get_order_update_status optimistic_lock_existing optimistic_lock_new)

lemma sample_order_meta:
  "get_order ''o1'' sample_order =
     Some \<lparr>ord_order_id = Some ''o1'', ord_customer_id = Some ''alice'',
           ord_items = Some [\<lparr>product_id = ''A'', quantity = 1, unit_price_cents = 500\<rparr>],
           ord_total_cents = Some 500, ord_status = Some PENDING,
           ord_correlation_id = Some ''corr-1'',
           ord_created_at = Some ''2024-01-01T00:00:00+00:00'',
           ord_updated_at = Some ''2024-01-01T00:00:00+00:00'', ord_version = Some 1,
           ord_metadata = None, ord_occurred_at = None\<rparr>"
  by (simp add: sample_order_def create_def put_item_with_optimistic_lock_def
      put_item_if_not_exists_def get_order_append_event no_order_attributes_def Let_def)
     (simp add: get_order_def)

text \<open>
  C9 as stated fails: a writer observes the order at version 1; another writer then sets
  FAILED (version 2); the first writer's \<^verbatim>\<open>update_status\<close> to CONFIRMED succeeds and
  overwrites the status (version 3).
\<close>

theorem C9_counterexample:
  "(let observed = get_order ''o1'' sample_order;
        other = update_status 1001 ''t1'' ''o1'' FAILED None sample_order;
        mine = update_status 1002 ''t2'' ''o1'' CONFIRMED None other
    in map_option ord_version observed = Some (Some 1)
       \<and> map_option ord_version (get_order ''o1'' other) = Some (Some 2)
       \<and> map_option ord_status (get_order ''o1'' other) = Some (Some FAILED)
       \<and> map_option ord_status (get_order ''o1'' mine) = Some (Some CONFIRMED)
       \<and> map_option ord_version (get_order ''o1'' mine) = Some (Some 3))"
  by (simp add: Let_def get_order_update_status sample_order_meta)

text \<open>On the sample order (stored at version 1): a status write, a locked write with a stale
  version, a create over an existing order, and a locked write with the stored version.\<close>

theorem C9_witness:
  "map_option ord_status
      (get_order ''o1'' (update_status 1001 ''t1'' ''o1'' INVENTORY_RESERVED None sample_order))
     = Some (Some INVENTORY_RESERVED)
   \<and> put_item_with_optimistic_lock sample_order (''ORDER#o1'', ''META'')
        (no_order_attributes\<lparr>ord_status := Some CONFIRMED, ord_version := Some 5\<rparr>)
     = Inl (OptimisticLockError 5)
   \<and> put_item_with_optimistic_lock sample_order (''ORDER#o1'', ''META'')
        (no_order_attributes\<lparr>ord_status := Some CONFIRMED, ord_version := Some 0\<rparr>)
     = Inl (OptimisticLockError 0)
   \<and> (\<exists>t. put_item_with_optimistic_lock sample_order (''ORDER#o1'', ''META'')
        (no_order_attributes\<lparr>ord_status := Some CONFIRMED, ord_version := Some 1\<rparr>) = Inr t
          \<and> map_option ord_version (get_order ''o1'' t) = Some (Some 2))"
  using C9_status_write_unconditional [where oid = "''o1''" and tbl = sample_order
      and st = INVENTORY_RESERVED and clk = 1001 and stamp = "''t1''" and md = None
      and key = "(''ORDER#o1'', ''META'')" and v = 5
      and item = "no_order_attributes\<lparr>ord_status := Some CONFIRMED, ord_version := Some 5\<rparr>"]
    C9_status_write_unconditional [where tbl = sample_order
      and key = "(''ORDER#o1'', ''META'')"
      and item = "no_order_attributes\<lparr>ord_status := Some CONFIRMED, ord_version := Some 0\<rparr>"]
    C9_status_write_unconditional [where tbl = sample_order
      and key = "(''ORDER#o1'', ''META'')" and v = 1
      and item = "no_order_attributes\<lparr>ord_status := Some CONFIRMED, ord_version := Some 1\<rparr>"]
    sample_order_meta
  by (simp add: get_order_def no_order_attributes_def)

section \<open>Properties of the saga state machine\<close>

text \<open>None of the declared states writes to the orders table: whatever the document and
  the store, the table after a state and its successors is the table before it.\<close>

lemma order_confirmed_orders: "orders (snd (order_confirmed doc st)) = orders st"
  by (simp add: order_confirmed_def)

lemma order_failed_orders: "orders (snd (order_failed doc st)) = orders st"
  by (simp add: order_failed_def)

lemma notify_confirmed_orders: "orders (snd (notify_confirmed doc st)) = orders st"
  by (simp add: notify_confirmed_def order_confirmed_orders split: option.splits)

lemma notify_failed_orders: "orders (snd (notify_failed doc st)) = orders st"
  by (simp add: notify_failed_def order_failed_orders split: option.splits)

lemma release_inventory_orders: "orders (snd (release_inventory envs doc st)) = orders st"
  by (simp add: release_inventory_def notify_failed_orders
      split: option.splits prod.splits sum.splits)

lemma payment_succeeded_orders: "orders (snd (payment_succeeded envs doc st)) = orders st"
  by (simp add: payment_succeeded_def notify_confirmed_orders release_inventory_orders
      split: option.splits)

lemma charge_payment_orders: "orders (snd (charge_payment envs doc st)) = orders st"
  by (simp add: charge_payment_def payment_succeeded_orders
      split: option.splits prod.splits sum.splits)

lemma inventory_succeeded_orders: "orders (snd (inventory_succeeded envs doc st)) = orders st"
  by (simp add: inventory_succeeded_def charge_payment_orders notify_failed_orders
      split: option.splits)

lemma reserve_inventory_orders: "orders (snd (reserve_inventory envs doc st)) = orders st"
  by (simp add: reserve_inventory_def inventory_succeeded_orders
      split: option.splits prod.splits sum.splits)

lemma run_saga_orders: "orders (snd (run_saga envs doc st)) = orders st"
  by (simp add: run_saga_def reserve_inventory_orders split: sum.splits)





section \<open>The stock invariant\<close>

lemma inventory_handler_ok:
  "stock_ok (inventory w) p \<Longrightarrow>
     stock_ok (inventory (fst (snd (inventory_handler env ev w idem)))) p"
  by (simp add: inventory_handler_world reserve_ok release_ok)

lemma inventory_handler_ok':
  assumes "stock_ok (inventory w) p" and "inventory_handler env ev w idem = (r, w', idem')"
  shows "stock_ok (inventory w') p"
  using inventory_handler_ok [OF assms(1), of env ev idem] assms(2) by simp

lemma notify_confirmed_inv: "inv (snd (notify_confirmed doc st)) = inv st"
  by (simp add: notify_confirmed_def order_confirmed_def split: option.splits)

lemma notify_failed_inv: "inv (snd (notify_failed doc st)) = inv st"
  by (simp add: notify_failed_def order_failed_def split: option.splits)

lemma release_inventory_stock:
  assumes "stock_ok (inventory (inv st)) p"
  shows "stock_ok (inventory (inv (snd (release_inventory envs doc st)))) p"
  using assms
  by (auto simp: release_inventory_def notify_failed_inv
      split: option.splits prod.splits sum.splits intro: inventory_handler_ok')

lemma payment_succeeded_stock:
  assumes "stock_ok (inventory (inv st)) p"
  shows "stock_ok (inventory (inv (snd (payment_succeeded envs doc st)))) p"
  using assms
  by (simp add: payment_succeeded_def notify_confirmed_inv release_inventory_stock
      split: option.splits)

lemma charge_payment_stock:
  assumes "stock_ok (inventory (inv st)) p"
  shows "stock_ok (inventory (inv (snd (charge_payment envs doc st)))) p"
  using assms
  by (auto simp: charge_payment_def payment_succeeded_stock
      split: option.splits prod.splits sum.splits)

lemma inventory_succeeded_stock:
  assumes "stock_ok (inventory (inv st)) p"
  shows "stock_ok (inventory (inv (snd (inventory_succeeded envs doc st)))) p"
  using assms
  by (simp add: inventory_succeeded_def charge_payment_stock notify_failed_inv
      split: option.splits)

lemma reserve_inventory_stock:
  assumes "stock_ok (inventory (inv st)) p"
  shows "stock_ok (inventory (inv (snd (reserve_inventory envs doc st)))) p"
proof -
  have h: "stock_ok (inventory w') p"
    if "inventory_handler en ev (inv st) t = (r, w', t')" for en ev t r w' t'
    using assms that by (rule inventory_handler_ok')
  show ?thesis
    using assms
    by (auto simp: reserve_inventory_def
        split: option.splits prod.splits sum.splits
        intro!: inventory_succeeded_stock dest: h)
qed

lemma run_saga_stock:
  assumes "stock_ok (inventory (inv st)) p"
  shows "stock_ok (inventory (inv (snd (run_saga envs doc st)))) p"
  using assms by (simp add: run_saga_def reserve_inventory_stock split: sum.splits)

text \<open>
  C3. A product stored with a quantity that is not negative still has one after any
  invocation of the inventory handler (reserve, release or an unknown action, whatever the
  event and the idempotency table) and after any execution of the saga. The decrement of \<open>n\<close> is applied exactly when the
  stored quantity is at least \<open>n\<close>; otherwise \<^verbatim>\<open>InsufficientStockError\<close> is raised and the
  table is returned as it was. The release loop, which runs on validated items only, leaves
  the product with at least the quantity it had.
\<close>

theorem C3_quantity_never_negative:
  assumes "inventory w p = Some it" and "inv_quantity it = Some q" and "0 \<le> q"
  shows "stock_ok (inventory (fst (snd (inventory_handler env ev w idem)))) p
       \<and> (inv st = w \<longrightarrow> stock_ok (inventory (inv (snd (run_saga envs doc st)))) p)
       \<and> decrement_stock p n oid ts (inventory w) =
           (if q \<ge> n
            then (Inr (), (inventory w)(p \<mapsto> it\<lparr>inv_quantity := Some (q - n),
                                                 inv_updated_at := Some ts\<rparr>))
            else (Inl (InsufficientStockError p n), inventory w))
       \<and> (OrderItem_list raw = Inr its \<longrightarrow>
            (\<exists>it' q'. add_back its (inventory w) p = Some it'
                      \<and> inv_quantity it' = Some q' \<and> q \<le> q'))"
proof -
  have ok: "stock_ok (inventory w) p"
    using assms by (simp add: stock_ok_def)
  have "stock_ok (inventory (fst (snd (inventory_handler env ev w idem)))) p"
    using ok by (simp add: inventory_handler_world reserve_ok release_ok)
  moreover have "inv st = w \<longrightarrow> stock_ok (inventory (inv (snd (run_saga envs doc st)))) p"
    using ok by (auto intro: run_saga_stock)
  moreover have "decrement_stock p n oid ts (inventory w) =
           (if q \<ge> n
            then (Inr (), (inventory w)(p \<mapsto> it\<lparr>inv_quantity := Some (q - n),
                                                 inv_updated_at := Some ts\<rparr>))
            else (Inl (InsufficientStockError p n), inventory w))"
    using assms(1,2) by (simp add: decrement_stock_cases)
  moreover have "OrderItem_list raw = Inr its \<longrightarrow>
            (\<exists>it' q'. add_back its (inventory w) p = Some it'
                      \<and> inv_quantity it' = Some q' \<and> q \<le> q')"
    using add_back_grows [of its "inventory w" p it q] assms(1,2)
      OrderItem_list_valid [of raw its] by blast
  ultimately show ?thesis by blast
qed

text \<open>A product seeded with 5: a reserve of 2 through the handler, a refused decrement of 7,
  an accepted decrement of 5 and a release of 3; and the sample saga on a stock of 10.\<close>

theorem C3_witness:
  "stock_ok (inventory (fst (snd (inventory_handler sample_env
       (reserve_event ''o1'' [\<lparr>product_id = ''A'', quantity = 2, unit_price_cents = 500\<rparr>])
       \<lparr>inventory = [''A'' \<mapsto> seeded 5], reservations = Map.empty\<rparr> Map.empty)))) ''A''
   \<and> decrement_stock ''A'' 7 ''o1'' ''t'' [''A'' \<mapsto> seeded 5]
       = (Inl (InsufficientStockError ''A'' 7), [''A'' \<mapsto> seeded 5])
   \<and> map_option inv_quantity
        (snd (decrement_stock ''A'' 5 ''o1'' ''t'' [''A'' \<mapsto> seeded 5]) ''A'') = Some (Some 0)
   \<and> (\<exists>it' q'. add_back [\<lparr>product_id = ''A'', quantity = 3, unit_price_cents = 500\<rparr>]
                   [''A'' \<mapsto> seeded 5] ''A'' = Some it'
                 \<and> inv_quantity it' = Some q' \<and> 5 \<le> q')
   \<and> stock_ok (inventory (inv (snd (run_saga sample_envs
         (saga_input ''o1'' ''alice'' 500
            [\<lparr>product_id = ''A'', quantity = 1, unit_price_cents = 500\<rparr>] ''corr-1'')
         sample_store)))) ''A''"
proof -
  let ?w = "\<lparr>inventory = [''A'' \<mapsto> seeded 5], reservations = Map.empty\<rparr>"
  have valid: "OrderItem_list [\<lparr>product_id = ''A'', quantity = 3, unit_price_cents = 500\<rparr>]
                 = Inr [\<lparr>product_id = ''A'', quantity = 3, unit_price_cents = 500\<rparr>]"
    by (simp add: OrderItem_init_def)
  have a: "inventory ?w ''A'' = Some (seeded 5)" "inv_quantity (seeded 5) = Some 5"
    by (simp_all add: seeded_def)
  have b: "inventory (inv sample_store) ''A'' = Some (seeded 10)"
          "inv_quantity (seeded 10) = Some 10"
    by (simp_all add: sample_store_def seeded_def)
  have nonneg: "(0::int) \<le> 5" "(0::int) \<le> 10" by simp_all
  note thm5 = C3_quantity_never_negative [OF a nonneg(1)]
  have handler: "stock_ok (inventory (fst (snd (inventory_handler sample_env
       (reserve_event ''o1'' [\<lparr>product_id = ''A'', quantity = 2, unit_price_cents = 500\<rparr>])
       ?w Map.empty)))) ''A''"
    using thm5 by blast
  have refused: "decrement_stock ''A'' 7 ''o1'' ''t'' (inventory ?w) =
           (if 5 \<ge> (7::int)
            then (Inr (), (inventory ?w)(''A'' \<mapsto> (seeded 5)\<lparr>inv_quantity := Some (5 - 7),
                                                 inv_updated_at := Some ''t''\<rparr>))
            else (Inl (InsufficientStockError ''A'' 7), inventory ?w))"
    using thm5 [where n = 7] by blast
  have accepted: "decrement_stock ''A'' 5 ''o1'' ''t'' (inventory ?w) =
           (if 5 \<ge> (5::int)
            then (Inr (), (inventory ?w)(''A'' \<mapsto> (seeded 5)\<lparr>inv_quantity := Some (5 - 5),
                                                 inv_updated_at := Some ''t''\<rparr>))
            else (Inl (InsufficientStockError ''A'' 5), inventory ?w))"
    using thm5 [where n = 5] by blast
  have released: "\<exists>it' q'. add_back [\<lparr>product_id = ''A'', quantity = 3, unit_price_cents = 500\<rparr>]
                   (inventory ?w) ''A'' = Some it'
                 \<and> inv_quantity it' = Some q' \<and> 5 \<le> q'"
    using thm5 valid by blast
  have saga: "stock_ok (inventory (inv (snd (run_saga sample_envs
         (saga_input ''o1'' ''alice'' 500
            [\<lparr>product_id = ''A'', quantity = 1, unit_price_cents = 500\<rparr>] ''corr-1'')
         sample_store)))) ''A''"
    using C3_quantity_never_negative [OF b nonneg(2), where st = sample_store] by blast
  show ?thesis
    using handler released saga by (simp add: refused [simplified] accepted [simplified])
qed

end
